theory Spec2Isabelle
  imports Main "HOL-Library.AList"
begin

section \<open>Rendering numbers in template strings\<close>

text \<open>
  The storage code builds strings with template literals such as
  \<^verbatim>\<open>`${diffInSeconds} seconds ago`\<close> and \<^verbatim>\<open>`${id}-${userId}`\<close>.
  For an integer below \<open>10^21\<close> in magnitude JavaScript prints the decimal digits, with a
  leading minus sign for a negative number. Ids are database serials and time differences are
  differences of millisecond timestamps, so they are modelled as \<open>int\<close>.
\<close>

definition digitChar :: "nat \<Rightarrow> char" where
  "digitChar d = ''0123456789'' ! d"

fun showNat :: "nat \<Rightarrow> string" where
  "showNat n = (if n < 10 then [digitChar n] else showNat (n div 10) @ [digitChar (n mod 10)])"

declare showNat.simps [simp del]

definition showInt :: "int \<Rightarrow> string" where
  "showInt i = (if i < 0 then CHR ''-'' # showNat (nat (- i)) else showNat (nat i))"

section \<open>getTimeAgo\<close>

text \<open>
  \<^verbatim>\<open>MemStorage.getTimeAgo\<close> and \<^verbatim>\<open>DatabaseStorage.getTimeAgo\<close> have the same
  body. A \<^verbatim>\<open>Date\<close> is its millisecond timestamp; \<open>now\<close> is the value of
  \<^verbatim>\<open>new Date()\<close> read inside the function. \<^verbatim>\<open>Math.floor(x / k)\<close> on integers
  is \<open>div\<close>, which rounds towards minus infinity as \<^verbatim>\<open>Math.floor\<close> does.
\<close>

definition getTimeAgo :: "int \<Rightarrow> int \<Rightarrow> string" where
  "getTimeAgo now date =
     (let diffInSeconds = (now - date) div 1000 in
      if diffInSeconds < 60 then showInt diffInSeconds @ '' seconds ago''
      else
        let diffInMinutes = diffInSeconds div 60 in
        if diffInMinutes < 60
        then showInt diffInMinutes @ '' '' @ (if diffInMinutes = 1 then ''minute'' else ''minutes'') @ '' ago''
        else
          let diffInHours = diffInMinutes div 60 in
          if diffInHours < 24
          then showInt diffInHours @ '' '' @ (if diffInHours = 1 then ''hour'' else ''hours'') @ '' ago''
          else
            let diffInDays = diffInHours div 24 in
            if diffInDays < 30
            then showInt diffInDays @ '' '' @ (if diffInDays = 1 then ''day'' else ''days'') @ '' ago''
            else
              let diffInMonths = diffInDays div 30 in
              showInt diffInMonths @ '' '' @ (if diffInMonths = 1 then ''month'' else ''months'') @ '' ago'')"

text \<open>
  The bucketing as the specification words it, on the elapsed duration \<open>d\<close> in milliseconds:
  below 60 seconds the whole seconds, below 60 minutes the whole minutes, below 24 hours the
  whole hours, below 30 days the whole days, otherwise days divided by 30; the unit is
  singular exactly when the count is 1, and seconds have no singular form.
\<close>

definition timeAgoUnit :: "int \<Rightarrow> string \<Rightarrow> string" where
  "timeAgoUnit n unit = showInt n @ '' '' @ (if n = 1 then unit else unit @ ''s'') @ '' ago''"

definition timeAgo_spec :: "int \<Rightarrow> string" where
  "timeAgo_spec d =
     (if d < 60 * 1000 then showInt (d div 1000) @ '' seconds ago''
      else if d < 60 * (60 * 1000) then timeAgoUnit (d div (60 * 1000)) ''minute''
      else if d < 24 * (60 * (60 * 1000)) then timeAgoUnit (d div (60 * (60 * 1000))) ''hour''
      else if d < 30 * (24 * (60 * (60 * 1000))) then timeAgoUnit (d div (24 * (60 * (60 * 1000)))) ''day''
      else timeAgoUnit ((d div (24 * (60 * (60 * 1000)))) div 30) ''month'')"

section \<open>Data model\<close>

text \<open>
  The row types of the schema. A nullable column is an \<open>option\<close> (\<open>None\<close> is
  \<^verbatim>\<open>null\<close>), a timestamp is its millisecond value. \<^verbatim>\<open>likes\<close> and
  \<^verbatim>\<open>comments\<close> of a post are declared \<^verbatim>\<open>integer(...).default(0)\<close> without
  \<^verbatim>\<open>notNull()\<close>, so both are nullable.
\<close>

record User =
  user_id :: int
  user_username :: string
  user_password :: string
  user_fullName :: string
  user_avatar :: "string option"
  user_role :: "string option"

record InsertUser =
  iu_username :: string
  iu_password :: string
  iu_fullName :: string
  iu_avatar :: "string option"
  iu_role :: "string option"

record Post =
  post_id :: int
  post_title :: string
  post_description :: string
  post_fileName :: "string option"
  post_userId :: int
  post_createdAt :: int
  post_likes :: "int option"
  post_comments :: "int option"

record InsertPost =
  ip_title :: string
  ip_description :: string
  ip_fileName :: "string option"
  ip_userId :: int

record PostLike =
  pl_postId :: int
  pl_userId :: int
  pl_createdAt :: int

record Comment =
  comment_id :: int
  comment_content :: string
  comment_postId :: int
  comment_userId :: int
  comment_createdAt :: int

record InsertComment =
  ic_content :: string
  ic_postId :: int
  ic_userId :: int


record Activity =
  activity_id :: int
  activity_user :: User
  activity_action :: string
  activity_target :: string
  activity_timeAgo :: string

text \<open>
  A thrown \<^verbatim>\<open>Error\<close> with its message, a rejection by the database of a row (a
  violated unique, primary-key or foreign-key constraint), or a rejection by the database of
  a query parameter that its column type cannot hold.
\<close>

datatype error = Error string | ConstraintViolation string | QueryError string

text \<open>\<^verbatim>\<open>x || null\<close> on a string: the empty string is falsy as well.\<close>

definition orNull :: "string option \<Rightarrow> string option" where
  "orNull x = (case x of None \<Rightarrow> None | Some v \<Rightarrow> if v = [] then None else Some v)"

text \<open>\<^verbatim>\<open>x || 0\<close> on a nullable integer.\<close>

definition orZero :: "int option \<Rightarrow> int" where
  "orZero x = (case x of None \<Rightarrow> 0 | Some v \<Rightarrow> v)"

section \<open>MemStorage\<close>

text \<open>
  A JavaScript \<^verbatim>\<open>Map\<close> keeps its keys in insertion order and \<^verbatim>\<open>set\<close> on a key
  that is present replaces the value in place: an association list with
  \<^const>\<open>AList.update\<close>, \<^const>\<open>map_of\<close> and \<^const>\<open>AList.delete\<close>.
  The like map is keyed by the string \<^verbatim>\<open>`${postId}-${userId}`\<close>.
\<close>

record MemStorage =
  users :: "(int \<times> User) list"
  posts :: "(int \<times> Post) list"
  activities :: "(int \<times> Activity) list"
  comments :: "(int \<times> Comment) list"
  userCurrentId :: int
  postCurrentId :: int
  activityCurrentId :: int
  commentCurrentId :: int
  postLikesMap :: "(string \<times> bool) list"

definition likeKey :: "int \<Rightarrow> int \<Rightarrow> string" where
  "likeKey postId userId = showInt postId @ ''-'' @ showInt userId"

definition createUserInternal :: "MemStorage \<Rightarrow> InsertUser \<Rightarrow> MemStorage \<times> User" where
  "createUserInternal s userData =
     (let id = userCurrentId s;
          user = \<lparr> user_id = id,
                   user_username = iu_username userData,
                   user_password = iu_password userData,
                   user_fullName = iu_fullName userData,
                   user_avatar = orNull (iu_avatar userData),
                   user_role = orNull (iu_role userData) \<rparr>
      in (s\<lparr> userCurrentId := id + 1, users := AList.update id user (users s) \<rparr>, user))"

text \<open>The argument of createPostInternal is a post without its id.\<close>

definition createPostInternal ::
  "MemStorage \<Rightarrow> string \<Rightarrow> string \<Rightarrow> string option \<Rightarrow> int \<Rightarrow> int \<Rightarrow> int option \<Rightarrow> int option
     \<Rightarrow> MemStorage \<times> Post" where
  "createPostInternal s title description fileName userId createdAt likes comments' =
     (let id = postCurrentId s;
          post = \<lparr> post_id = id, post_title = title, post_description = description,
                   post_fileName = fileName, post_userId = userId, post_createdAt = createdAt,
                   post_likes = likes, post_comments = comments' \<rparr>
      in (s\<lparr> postCurrentId := id + 1, posts := AList.update id post (posts s) \<rparr>, post))"

definition createActivityInternal ::
  "MemStorage \<Rightarrow> User \<Rightarrow> string \<Rightarrow> string \<Rightarrow> string \<Rightarrow> MemStorage \<times> Activity" where
  "createActivityInternal s user action target timeAgo =
     (let id = activityCurrentId s;
          activity = \<lparr> activity_id = id, activity_user = user, activity_action = action,
                       activity_target = target, activity_timeAgo = timeAgo \<rparr>
      in (s\<lparr> activityCurrentId := id + 1,
             activities := AList.update id activity (activities s) \<rparr>, activity))"

text \<open>
  The constructor: empty maps, counters at 1, then initDemoData. The two posts of the demo
  data read \<^verbatim>\<open>Date.now()\<close> one after the other: \<open>now1\<close> and \<open>now2\<close>.
\<close>

definition emptyMemStorage :: MemStorage where
  "emptyMemStorage =
     \<lparr> users = [], posts = [], activities = [], comments = [],
       userCurrentId = 1, postCurrentId = 1, activityCurrentId = 1, commentCurrentId = 1,
       postLikesMap = [] \<rparr>"

definition initDemoData :: "MemStorage \<Rightarrow> int \<Rightarrow> int \<Rightarrow> MemStorage" where
  "initDemoData s0 now1 now2 =
     (let (s1, user1) = createUserInternal s0
            \<lparr> iu_username = ''alex.johnson'', iu_password = ''password123'',
              iu_fullName = ''Alex Johnson'',
              iu_avatar = Some ''https://images.unsplash.com/photo-1599566150163-29194dcaad36'',
              iu_role = Some ''Product Manager'' \<rparr>;
          (s2, user2) = createUserInternal s1
            \<lparr> iu_username = ''emma.thompson'', iu_password = ''password123'',
              iu_fullName = ''Emma Thompson'',
              iu_avatar = Some ''https://images.unsplash.com/photo-1580489944761-15a19d654956'',
              iu_role = Some ''Marketing Manager'' \<rparr>;
          (s3, user3) = createUserInternal s2
            \<lparr> iu_username = ''marcus.wilson'', iu_password = ''password123'',
              iu_fullName = ''Marcus Wilson'',
              iu_avatar = Some ''https://images.unsplash.com/photo-1506794778202-cad84cf45f1d'',
              iu_role = Some ''Product Lead'' \<rparr>;
          (s4, post1) = createPostInternal s3
            ''Q2 2023 Marketing Strategy Document''
            ''This comprehensive document outlines our marketing strategy for Q2 2023, including target audiences, campaign timelines, budget allocation, and KPIs. Please review and provide feedback by Friday.''
            (Some ''Q2_Marketing_Strategy.pdf'') (user_id user2) (now1 - 7200000) (Some 24) (Some 8);
          (s5, post2) = createPostInternal s4
            ''Product Roadmap 2023-2024''
            (''Here'' @ [CHR 0x27] @ ''s our updated product roadmap for the next 18 months. I'' @ [CHR 0x27] @ ''ve highlighted the key milestones and dependencies between different product teams.'')
            (Some ''Product_Roadmap_2023_2024.pdf'') (user_id user3) (now2 - 86400000) (Some 42) (Some 16);
          (s6, act1) = createActivityInternal s5 user2 ''commented on'' ''Q2 Marketing Strategy''
            ''10 minutes ago'';
          (s7, act2) = createActivityInternal s6 user3 ''uploaded'' ''Design Assets.zip''
            ''45 minutes ago'';
          (s8, act3) = createActivityInternal s7 user1 ''created'' ''Team Meeting Notes''
            ''2 hours ago''
      in s8)"

definition newMemStorage :: "int \<Rightarrow> int \<Rightarrow> MemStorage" where
  "newMemStorage now1 now2 = initDemoData emptyMemStorage now1 now2"

definition getUserById :: "MemStorage \<Rightarrow> int \<Rightarrow> User option" where
  "getUserById s id' = map_of (users s) id'"

definition getUserByUsername :: "MemStorage \<Rightarrow> string \<Rightarrow> User option" where
  "getUserByUsername s username = find (\<lambda>user. user_username user = username) (map snd (users s))"

definition createUser :: "MemStorage \<Rightarrow> InsertUser \<Rightarrow> MemStorage \<times> User" where
  "createUser s userData = createUserInternal s userData"

text \<open>\<open>now\<close> is the value of \<^verbatim>\<open>new Date()\<close> at the call.\<close>

definition createPost :: "MemStorage \<Rightarrow> InsertPost \<Rightarrow> int \<Rightarrow> MemStorage \<times> Post" where
  "createPost s postData now =
     createPostInternal s (ip_title postData) (ip_description postData)
       (orNull (ip_fileName postData)) (ip_userId postData) now (Some 0) (Some 0)"

definition hasUserLikedPost :: "MemStorage \<Rightarrow> int \<Rightarrow> int \<Rightarrow> bool" where
  "hasUserLikedPost s postId userId =
     (let key = likeKey postId userId in map_of (postLikesMap s) key \<noteq> None)"

text \<open>likePost returns the updated post, or \<open>None\<close> for \<^verbatim>\<open>undefined\<close>.\<close>

definition likePost :: "MemStorage \<Rightarrow> int \<Rightarrow> int \<Rightarrow> MemStorage \<times> Post option" where
  "likePost s id' userId =
     (case map_of (posts s) id' of
        None \<Rightarrow> (s, None)
      | Some post \<Rightarrow>
          let key = likeKey id' userId in
          if map_of (postLikesMap s) key \<noteq> None
          then
            let s1 = s\<lparr> postLikesMap := AList.delete key (postLikesMap s) \<rparr>;
                currentLikes = orZero (post_likes post);
                updatedPost = post\<lparr> post_likes := Some (max 0 (currentLikes - 1)) \<rparr>
            in (s1\<lparr> posts := AList.update id' updatedPost (posts s1) \<rparr>, Some updatedPost)
          else
            let s1 = s\<lparr> postLikesMap := AList.update key True (postLikesMap s) \<rparr>;
                currentLikes = orZero (post_likes post);
                updatedPost = post\<lparr> post_likes := Some (currentLikes + 1) \<rparr>
            in (s1\<lparr> posts := AList.update id' updatedPost (posts s1) \<rparr>, Some updatedPost))"




definition createComment :: "MemStorage \<Rightarrow> InsertComment \<Rightarrow> int \<Rightarrow> MemStorage \<times> Comment" where
  "createComment s commentData now =
     (let id = commentCurrentId s;
          s1 = s\<lparr> commentCurrentId := id + 1 \<rparr>;
          comment = \<lparr> comment_id = id, comment_content = ic_content commentData,
                      comment_postId = ic_postId commentData, comment_userId = ic_userId commentData,
                      comment_createdAt = now \<rparr>;
          s2 = s1\<lparr> comments := AList.update id comment (comments s1) \<rparr>
      in case map_of (posts s2) (ic_postId commentData) of
           Some post \<Rightarrow>
             let currentComments = orZero (post_comments post);
                 updatedPost = post\<lparr> post_comments := Some (currentComments + 1) \<rparr>
             in (s2\<lparr> posts := AList.update (ic_postId commentData) updatedPost (posts s2) \<rparr>, comment)
         | None \<Rightarrow> (s2, comment))"

definition getRecentActivities :: "MemStorage \<Rightarrow> Activity list" where
  "getRecentActivities s = map snd (activities s)"

text \<open>
  The states a MemStorage object can be in: the constructor's, and what the mutating methods
  make of one.
\<close>

inductive reachable :: "MemStorage \<Rightarrow> bool" where
  r_new: "reachable (newMemStorage now1 now2)"
| r_createUser: "reachable s \<Longrightarrow> reachable (fst (createUser s userData))"
| r_createPost: "reachable s \<Longrightarrow> reachable (fst (createPost s postData now))"
| r_likePost: "reachable s \<Longrightarrow> reachable (fst (likePost s id' userId))"
| r_createComment: "reachable s \<Longrightarrow> reachable (fst (createComment s commentData now))"

text \<open>A run of like toggles on one post, one call per listed user, in order.\<close>

definition likePostSeq :: "MemStorage \<Rightarrow> int \<Rightarrow> int list \<Rightarrow> MemStorage" where
  "likePostSeq s id' userIds = foldl (\<lambda>s' userId. fst (likePost s' id' userId)) s userIds"

section \<open>The database behind DatabaseStorage\<close>

text \<open>
  DatabaseStorage talks to PostgreSQL through an external query builder. The tables are
  lists of rows in table order, and each serial column has its sequence. What is assumed of
  the database is what the schema declares: \<^verbatim>\<open>users.username\<close> is unique, the
  \<^verbatim>\<open>id\<close> columns and the pair \<^verbatim>\<open>(post_id, user_id)\<close> of \<^verbatim>\<open>post_likes\<close> are primary
  keys, \<^verbatim>\<open>post_likes\<close> and \<^verbatim>\<open>comments\<close> reference \<^verbatim>\<open>posts.id\<close> and
  \<^verbatim>\<open>users.id\<close>. A statement that violates a constraint is rejected and changes no table;
  a serial value drawn for a rejected row is not given back. Each statement outside a
  transaction is atomic on its own, and a transaction is atomic as a whole.

  The id columns are \<^verbatim>\<open>serial\<close> and \<^verbatim>\<open>integer\<close>, that is, 32-bit integers. A
  query that compares such a column with a parameter is rejected, and the call throws, when
  the parameter is an integer outside that range or a number that is not an integer. The
  methods below take integer arguments; the one caller that can hand over a number that is
  not an integer is the like route, which has that case itself.
\<close>

definition int4 :: "int \<Rightarrow> bool" where
  "int4 i \<longleftrightarrow> - 2147483648 \<le> i \<and> i \<le> 2147483647"

record Database =
  users_table :: "User list"
  posts_table :: "Post list"
  postLikes_table :: "PostLike list"
  comments_table :: "Comment list"
  users_id_seq :: int
  posts_id_seq :: int
  comments_id_seq :: int

text \<open>\<^verbatim>\<open>result[0]\<close>: the first row, or \<^verbatim>\<open>undefined\<close>.\<close>

definition firstRow :: "'a list \<Rightarrow> 'a option" where
  "firstRow rows = (case rows of [] \<Rightarrow> None | r # _ \<Rightarrow> Some r)"

definition select_users_by_id :: "Database \<Rightarrow> int \<Rightarrow> User list" where
  "select_users_by_id d id' = filter (\<lambda>u. user_id u = id') (users_table d)"

definition select_posts_by_id :: "Database \<Rightarrow> int \<Rightarrow> Post list" where
  "select_posts_by_id d id' = filter (\<lambda>p. post_id p = id') (posts_table d)"

definition select_postLikes :: "Database \<Rightarrow> int \<Rightarrow> int \<Rightarrow> PostLike list" where
  "select_postLikes d postId userId =
     filter (\<lambda>l. pl_postId l = postId \<and> pl_userId l = userId) (postLikes_table d)"

definition delete_postLikes :: "Database \<Rightarrow> int \<Rightarrow> int \<Rightarrow> Database" where
  "delete_postLikes d postId userId =
     d\<lparr> postLikes_table :=
          filter (\<lambda>l. \<not> (pl_postId l = postId \<and> pl_userId l = userId)) (postLikes_table d) \<rparr>"

definition insert_postLikes :: "Database \<Rightarrow> PostLike \<Rightarrow> error + Database" where
  "insert_postLikes d row =
     (if select_postLikes d (pl_postId row) (pl_userId row) \<noteq> []
      then Inl (ConstraintViolation ''post_likes primary key'')
      else if select_posts_by_id d (pl_postId row) = []
      then Inl (ConstraintViolation ''post_likes.post_id references posts.id'')
      else if select_users_by_id d (pl_userId row) = []
      then Inl (ConstraintViolation ''post_likes.user_id references users.id'')
      else Inr (d\<lparr> postLikes_table := postLikes_table d @ [row] \<rparr>))"

text \<open>
  \<^verbatim>\<open>update(posts).set({ likes: v }).where(eq(posts.id, id)).returning()\<close>: the new table
  and the updated rows.
\<close>

definition update_posts_set_likes :: "Database \<Rightarrow> int \<Rightarrow> int \<Rightarrow> Database \<times> Post list" where
  "update_posts_set_likes d id' v =
     (let d' = d\<lparr> posts_table :=
                   map (\<lambda>p. if post_id p = id' then p\<lparr> post_likes := Some v \<rparr> else p) (posts_table d) \<rparr>
      in (d', select_posts_by_id d' id'))"

text \<open>
  \<^verbatim>\<open>update(posts).set({ comments: sql`${posts.comments} + 1` })\<close>: the sum is computed by
  the database on the row it updates; \<^verbatim>\<open>NULL + 1\<close> is \<^verbatim>\<open>NULL\<close>.
\<close>

definition update_posts_increment_comments :: "Database \<Rightarrow> int \<Rightarrow> Database" where
  "update_posts_increment_comments d id' =
     d\<lparr> posts_table :=
          map (\<lambda>p. if post_id p = id' then p\<lparr> post_comments := map_option (\<lambda>n. n + 1) (post_comments p) \<rparr> else p)
            (posts_table d) \<rparr>"

definition insert_users :: "Database \<Rightarrow> InsertUser \<Rightarrow> Database \<times> (error + User)" where
  "insert_users d userData =
     (let id = users_id_seq d;
          d1 = d\<lparr> users_id_seq := id + 1 \<rparr>;
          row = \<lparr> user_id = id, user_username = iu_username userData,
                  user_password = iu_password userData, user_fullName = iu_fullName userData,
                  user_avatar = iu_avatar userData, user_role = iu_role userData \<rparr>
      in if select_users_by_id d id \<noteq> []
         then (d1, Inl (ConstraintViolation ''users primary key''))
         else if filter (\<lambda>u. user_username u = iu_username userData) (users_table d) \<noteq> []
         then (d1, Inl (ConstraintViolation ''users.username unique''))
         else (d1\<lparr> users_table := users_table d @ [row] \<rparr>, Inr row))"

definition insert_posts ::
  "Database \<Rightarrow> string \<Rightarrow> string \<Rightarrow> string option \<Rightarrow> int \<Rightarrow> int \<Rightarrow> int option \<Rightarrow> int option
     \<Rightarrow> Database \<times> (error + Post)" where
  "insert_posts d title description fileName userId createdAt likes comments' =
     (let id = posts_id_seq d;
          d1 = d\<lparr> posts_id_seq := id + 1 \<rparr>;
          row = \<lparr> post_id = id, post_title = title, post_description = description,
                  post_fileName = fileName, post_userId = userId, post_createdAt = createdAt,
                  post_likes = likes, post_comments = comments' \<rparr>
      in if select_posts_by_id d id \<noteq> []
         then (d1, Inl (ConstraintViolation ''posts primary key''))
         else (d1\<lparr> posts_table := posts_table d @ [row] \<rparr>, Inr row))"

definition insert_comments :: "Database \<Rightarrow> InsertComment \<Rightarrow> int \<Rightarrow> Database \<times> (error + Comment)" where
  "insert_comments d commentData createdAt =
     (let id = comments_id_seq d;
          d1 = d\<lparr> comments_id_seq := id + 1 \<rparr>;
          row = \<lparr> comment_id = id, comment_content = ic_content commentData,
                  comment_postId = ic_postId commentData, comment_userId = ic_userId commentData,
                  comment_createdAt = createdAt \<rparr>
      in if filter (\<lambda>c. comment_id c = id) (comments_table d) \<noteq> []
         then (d1, Inl (ConstraintViolation ''comments primary key''))
         else if select_posts_by_id d (ic_postId commentData) = []
         then (d1, Inl (ConstraintViolation ''comments.post_id references posts.id''))
         else if select_users_by_id d (ic_userId commentData) = []
         then (d1, Inl (ConstraintViolation ''comments.user_id references users.id''))
         else (d1\<lparr> comments_table := comments_table d @ [row] \<rparr>, Inr row))"

section \<open>DatabaseStorage\<close>

definition db_getUserById :: "Database \<Rightarrow> int \<Rightarrow> User option" where
  "db_getUserById d id' = firstRow (select_users_by_id d id')"

definition db_createUser :: "Database \<Rightarrow> InsertUser \<Rightarrow> Database \<times> (error + User)" where
  "db_createUser d userData = insert_users d userData"

definition db_createPost :: "Database \<Rightarrow> InsertPost \<Rightarrow> int \<Rightarrow> Database \<times> (error + Post)" where
  "db_createPost d postData now =
     insert_posts d (ip_title postData) (ip_description postData) (orNull (ip_fileName postData))
       (ip_userId postData) now (Some 0) (Some 0)"

definition db_hasUserLikedPost :: "Database \<Rightarrow> int \<Rightarrow> int \<Rightarrow> error + bool" where
  "db_hasUserLikedPost d postId userId =
     (if int4 postId \<and> int4 userId
      then Inr (length (select_postLikes d postId userId) > 0)
      else Inl (QueryError ''value out of range for type integer''))"

text \<open>
  likePost issues its statements one after the other, outside any transaction. A rejected
  query or insert throws out of the method.
\<close>

definition db_likePost :: "Database \<Rightarrow> int \<Rightarrow> int \<Rightarrow> int \<Rightarrow> Database \<times> (error + Post option)" where
  "db_likePost d id' userId now =
     (if \<not> int4 id' then (d, Inl (QueryError ''value out of range for type integer''))
      else
        (case firstRow (select_posts_by_id d id') of
           None \<Rightarrow> (d, Inr None)
         | Some post \<Rightarrow>
             (case db_hasUserLikedPost d id' userId of
                Inl e \<Rightarrow> (d, Inl e)
              | Inr hasLiked \<Rightarrow>
                  if hasLiked
                  then
                    let d1 = delete_postLikes d id' userId;
                        currentLikes = orZero (post_likes post);
                        (d2, result) = update_posts_set_likes d1 id' (max 0 (currentLikes - 1))
                    in (d2, Inr (firstRow result))
                  else
                    (case insert_postLikes d
                            \<lparr> pl_postId = id', pl_userId = userId, pl_createdAt = now \<rparr> of
                       Inl e \<Rightarrow> (d, Inl e)
                     | Inr d1 \<Rightarrow>
                         let currentLikes = orZero (post_likes post);
                             (d2, result) = update_posts_set_likes d1 id' (currentLikes + 1)
                         in (d2, Inr (firstRow result))))))"

text \<open>
  createComment runs its insert and its update inside \<^verbatim>\<open>db.transaction\<close>: when the insert
  is rejected the transaction is rolled back and the error is thrown.
\<close>

definition db_createComment :: "Database \<Rightarrow> InsertComment \<Rightarrow> int \<Rightarrow> Database \<times> (error + Comment)" where
  "db_createComment d commentData now =
     (case insert_comments d commentData now of
        (d1, Inl e) \<Rightarrow> (d\<lparr> comments_id_seq := comments_id_seq d1 \<rparr>, Inl e)
      | (d1, Inr newComment) \<Rightarrow>
          (update_posts_increment_comments d1 (ic_postId commentData), Inr newComment))"


definition db_getRecentActivities :: "Database \<Rightarrow> Activity list" where
  "db_getRecentActivities d = []"

text \<open>
  The statements of likePost one at a time. Every \<^verbatim>\<open>await\<close> of the method hands control
  back to the event loop, where another request may run its own statements; the local
  variables \<^verbatim>\<open>post\<close> and \<^verbatim>\<open>hasLiked\<close> live on in the suspended call.
\<close>

datatype likePostTask =
    AtSelectPost
  | AtHasLiked Post
  | AtWriteLike Post bool
  | AtUpdatePost Post bool
  | Returned "error + Post option"

fun likePostStep :: "Database \<Rightarrow> int \<Rightarrow> int \<Rightarrow> int \<Rightarrow> likePostTask \<Rightarrow> Database \<times> likePostTask" where
  "likePostStep d id' userId now AtSelectPost =
     (if \<not> int4 id' then (d, Returned (Inl (QueryError ''value out of range for type integer'')))
      else
        (case firstRow (select_posts_by_id d id') of
           None \<Rightarrow> (d, Returned (Inr None))
         | Some post \<Rightarrow> (d, AtHasLiked post)))"
| "likePostStep d id' userId now (AtHasLiked post) =
     (case db_hasUserLikedPost d id' userId of
        Inl e \<Rightarrow> (d, Returned (Inl e))
      | Inr hasLiked \<Rightarrow> (d, AtWriteLike post hasLiked))"
| "likePostStep d id' userId now (AtWriteLike post hasLiked) =
     (if hasLiked then (delete_postLikes d id' userId, AtUpdatePost post hasLiked)
      else
        (case insert_postLikes d \<lparr> pl_postId = id', pl_userId = userId, pl_createdAt = now \<rparr> of
           Inl e \<Rightarrow> (d, Returned (Inl e))
         | Inr d1 \<Rightarrow> (d1, AtUpdatePost post hasLiked)))"
| "likePostStep d id' userId now (AtUpdatePost post hasLiked) =
     (let currentLikes = orZero (post_likes post);
          (d2, result) = update_posts_set_likes d id'
                           (if hasLiked then max 0 (currentLikes - 1) else currentLikes + 1)
      in (d2, Returned (Inr (firstRow result))))"
| "likePostStep d id' userId now (Returned r) = (d, Returned r)"

text \<open>One call run to its end with nothing in between: four statements at most.\<close>

definition likePostAlone :: "Database \<Rightarrow> int \<Rightarrow> int \<Rightarrow> int \<Rightarrow> Database \<times> likePostTask" where
  "likePostAlone d id' userId now =
     (let (d1, t1) = likePostStep d id' userId now AtSelectPost;
          (d2, t2) = likePostStep d1 id' userId now t1;
          (d3, t3) = likePostStep d2 id' userId now t2
      in likePostStep d3 id' userId now t3)"

text \<open>
  Two calls of likePost on the same post in flight at once. The schedule says whose next
  statement the database receives: \<open>False\<close> the first caller's, \<open>True\<close> the second's.
\<close>

fun likePostInterleaved ::
  "Database \<Rightarrow> int \<Rightarrow> int \<Rightarrow> int \<Rightarrow> int \<Rightarrow> likePostTask \<Rightarrow> likePostTask \<Rightarrow> bool list
     \<Rightarrow> Database \<times> likePostTask \<times> likePostTask" where
  "likePostInterleaved d id' userA userB now ta tb [] = (d, ta, tb)"
| "likePostInterleaved d id' userA userB now ta tb (False # schedule) =
     (let (d', ta') = likePostStep d id' userA now ta
      in likePostInterleaved d' id' userA userB now ta' tb schedule)"
| "likePostInterleaved d id' userA userB now ta tb (True # schedule) =
     (let (d', tb') = likePostStep d id' userB now tb
      in likePostInterleaved d' id' userA userB now ta tb' schedule)"

text \<open>
  initDatabase seeds an empty database with three users and two posts; a database that has
  users is left as it is.
\<close>

definition emptyDatabase :: Database where
  "emptyDatabase =
     \<lparr> users_table = [], posts_table = [], postLikes_table = [], comments_table = [],
       users_id_seq = 1, posts_id_seq = 1, comments_id_seq = 1 \<rparr>"

definition initDatabase :: "Database \<Rightarrow> int \<Rightarrow> int \<Rightarrow> Database" where
  "initDatabase d0 now1 now2 =
     (if users_table d0 = []
      then
        (case insert_users d0
                \<lparr> iu_username = ''alex.johnson'', iu_password = ''password123'',
                  iu_fullName = ''Alex Johnson'',
                  iu_avatar = Some ''https://images.unsplash.com/photo-1599566150163-29194dcaad36'',
                  iu_role = Some ''Product Manager'' \<rparr> of
           (d1, Inl e) \<Rightarrow> d1
         | (d1, Inr user1) \<Rightarrow>
        (case insert_users d1
                \<lparr> iu_username = ''emma.thompson'', iu_password = ''password123'',
                  iu_fullName = ''Emma Thompson'',
                  iu_avatar = Some ''https://images.unsplash.com/photo-1580489944761-15a19d654956'',
                  iu_role = Some ''Marketing Manager'' \<rparr> of
           (d2, Inl e) \<Rightarrow> d2
         | (d2, Inr user2) \<Rightarrow>
        (case insert_users d2
                \<lparr> iu_username = ''marcus.wilson'', iu_password = ''password123'',
                  iu_fullName = ''Marcus Wilson'',
                  iu_avatar = Some ''https://images.unsplash.com/photo-1506794778202-cad84cf45f1d'',
                  iu_role = Some ''Product Lead'' \<rparr> of
           (d3, Inl e) \<Rightarrow> d3
         | (d3, Inr user3) \<Rightarrow>
        (case insert_posts d3
                ''Q2 2023 Marketing Strategy Document''
                ''This comprehensive document outlines our marketing strategy for Q2 2023, including target audiences, campaign timelines, budget allocation, and KPIs. Please review and provide feedback by Friday.''
                (Some ''Q2_Marketing_Strategy.pdf'') (user_id user2) (now1 - 7200000) (Some 24) (Some 8) of
           (d4, Inl e) \<Rightarrow> d4
         | (d4, Inr post1) \<Rightarrow>
             fst (insert_posts d4
                ''Product Roadmap 2023-2024''
                (''Here'' @ [CHR 0x27] @ ''s our updated product roadmap for the next 18 months. I'' @ [CHR 0x27] @ ''ve highlighted the key milestones and dependencies between different product teams.'')
                (Some ''Product_Roadmap_2023_2024.pdf'') (user_id user3) (now2 - 86400000) (Some 42) (Some 16))))))
      else d0)"

section \<open>Routes\<close>

text \<open>
  The routes run on the DatabaseStorage instance. Of a request the handlers read
  \<^verbatim>\<open>Number(req.params.id)\<close>, which is \<^verbatim>\<open>NaN\<close>, an integer of any size, or a number
  that is not an integer (a fraction or an infinity), and the authenticated user (\<open>None\<close>
  when \<^verbatim>\<open>req.isAuthenticated()\<close> is false or \<^verbatim>\<open>req.user\<close> is missing).
  A response is its status and its JSON body.
\<close>

datatype idParam = NaNId | IntegerId int | NonIntegerId

record Request =
  req_id :: idParam
  req_user :: "User option"

datatype body = Message string | LikeResult Post bool | ActivityList "Activity list"

type_synonym response = "nat \<times> body"

text \<open>
  The like route guards \<^verbatim>\<open>isNaN\<close> only. With an id that is not an integer its first
  query, in hasUserLikedPost, is rejected by the database, and so is likePost's with an
  integer outside the 32-bit range; the \<^verbatim>\<open>catch\<close> answers 500.
\<close>

definition likeRoute :: "Database \<Rightarrow> Request \<Rightarrow> int \<Rightarrow> Database \<times> response" where
  "likeRoute d req now =
     (case req_id req of
        NaNId \<Rightarrow> (d, (400, Message ''Invalid post ID''))
      | NonIntegerId \<Rightarrow>
          (case req_user req of
             None \<Rightarrow> (d, (401, Message ''User not authenticated''))
           | Some user \<Rightarrow> (d, (500, Message ''Failed to like post'')))
      | IntegerId postId \<Rightarrow>
          (case req_user req of
             None \<Rightarrow> (d, (401, Message ''User not authenticated''))
           | Some user \<Rightarrow>
               let userId = user_id user in
               (case db_hasUserLikedPost d postId userId of
                  Inl e \<Rightarrow> (d, (500, Message ''Failed to like post''))
                | Inr hasLiked \<Rightarrow>
                    (case db_likePost d postId userId now of
                       (d', Inl e) \<Rightarrow> (d', (500, Message ''Failed to like post''))
                     | (d', Inr None) \<Rightarrow> (d', (404, Message ''Post not found''))
                     | (d', Inr (Some post)) \<Rightarrow> (d', (200, LikeResult post (\<not> hasLiked)))))))"

definition activitiesRoute :: "Database \<Rightarrow> response" where
  "activitiesRoute d = (let activities' = db_getRecentActivities d in (200, ActivityList activities'))"

section \<open>Example inputs\<close>

text \<open>
  A MemStorage fresh from its constructor and a database fresh from initDatabase, both at the
  same clock reading, and the post and the comment of the specification's example scenario.
\<close>

definition demoMem :: MemStorage where
  "demoMem = newMemStorage 1700000000000 1700000000000"

definition demoDb :: Database where
  "demoDb = initDatabase emptyDatabase 1700000000000 1700000000000"

definition roadmapPost :: InsertPost where
  "roadmapPost = \<lparr> ip_title = ''Roadmap'', ip_description = [], ip_fileName = None, ip_userId = 1 \<rparr>"

definition greatComment :: InsertComment where
  "greatComment = \<lparr> ic_content = ''Great!'', ic_postId = 1, ic_userId = 3 \<rparr>"

definition userB :: User where
  "userB = \<lparr> user_id = 2, user_username = ''emma.thompson'', user_password = ''password123'',
              user_fullName = ''Emma Thompson'',
              user_avatar = Some ''https://images.unsplash.com/photo-1580489944761-15a19d654956'',
              user_role = Some ''Marketing Manager'' \<rparr>"

text \<open>
  A comment on a post id that no post has, a comment on post 1 by a user id that no user has,
  a second sign-up under the name of the first demo user, and a seeded database in which
  user 1 has just created the Roadmap post (post 3).
\<close>

definition orphanComment :: InsertComment where
  "orphanComment = \<lparr> ic_content = ''Great!'', ic_postId = 99, ic_userId = 3 \<rparr>"

definition ghostComment :: InsertComment where
  "ghostComment = \<lparr> ic_content = ''Great!'', ic_postId = 1, ic_userId = 77 \<rparr>"

definition secondAlex :: InsertUser where
  "secondAlex = \<lparr> iu_username = ''alex.johnson'', iu_password = ''hunter2'',
                   iu_fullName = ''Another Alex'', iu_avatar = None, iu_role = None \<rparr>"

definition freshUser :: InsertUser where
  "freshUser = \<lparr> iu_username = ''dana.lee'', iu_password = ''hunter2'',
                  iu_fullName = ''Dana Lee'', iu_avatar = None, iu_role = None \<rparr>"

definition roadmapDb :: Database where
  "roadmapDb = fst (db_createPost demoDb roadmapPost 1700000005000)"

section \<open>Invariants of MemStorage\<close>

text \<open>The users who currently like a post.\<close>

definition likers :: "MemStorage \<Rightarrow> int \<Rightarrow> int set" where
  "likers s postId = {userId. hasUserLikedPost s postId userId}"

text \<open>
  Ids handed out so far lie below the counters, every like belongs to a stored post, and
  the likes of a stored post are a number that is at least the number of its likers.
\<close>

definition memInv :: "MemStorage \<Rightarrow> bool" where
  "memInv s \<longleftrightarrow>
     (\<forall>p. map_of (posts s) p \<noteq> None \<longrightarrow> p < postCurrentId s) \<and>
     (\<forall>c. map_of (comments s) c \<noteq> None \<longrightarrow> c < commentCurrentId s) \<and>
     (\<forall>p u. hasUserLikedPost s p u \<longrightarrow> map_of (posts s) p \<noteq> None) \<and>
     (\<forall>p post. map_of (posts s) p = Some post \<longrightarrow>
        (\<exists>n. post_likes post = Some n \<and> int (card (likers s p)) \<le> n)) \<and>
     (\<forall>k. map_of (users s) k \<noteq> None \<longrightarrow> k < userCurrentId s)"

text \<open>The likes of a stored post are exactly the number of its likers.\<close>

definition likesExact :: "MemStorage \<Rightarrow> int \<Rightarrow> bool" where
  "likesExact s p \<longleftrightarrow>
     (\<exists>post. map_of (posts s) p = Some post \<and> post_likes post = Some (int (card (likers s p))))"

section \<open>Reachable databases\<close>



section \<open>Facts about the decimal rendering\<close>

lemma lt10_cases:
  "(a::nat) < 10 \<Longrightarrow>
     a = 0 \<or> a = 1 \<or> a = 2 \<or> a = 3 \<or> a = 4 \<or> a = 5 \<or> a = 6 \<or> a = 7 \<or> a = 8 \<or> a = 9"
  by arith

lemma digitChar_inj:
  assumes "a < 10" "b < 10" "digitChar a = digitChar b"
  shows "a = b"
  using lt10_cases[OF assms(1)] lt10_cases[OF assms(2)] assms(3) unfolding digitChar_def
  by (elim disjE) simp_all

lemma digitChar_not_minus:
  assumes "a < 10"
  shows "digitChar a \<noteq> CHR ''-''"
  using lt10_cases[OF assms] unfolding digitChar_def
  by (elim disjE) simp_all

lemma showNat_no_minus: "CHR ''-'' \<notin> set (showNat n)"
proof (induction n rule: showNat.induct)
  case (1 n)
  show ?case
  proof (cases "n < 10")
    case True
    then show ?thesis using digitChar_not_minus[of n] by (simp add: showNat.simps[of n])
  next
    case False
    then show ?thesis
      using 1 digitChar_not_minus[of "n mod 10"] by (simp add: showNat.simps[of n])
  qed
qed

lemma showNat_nonempty: "showNat n \<noteq> []"
  by (subst showNat.simps) simp

lemma showNat_inj: "showNat n = showNat m \<Longrightarrow> n = m"
proof (induction n arbitrary: m rule: showNat.induct)
  case (1 n)
  show ?case
  proof (cases "n < 10")
    case True
    note n = this
    show ?thesis
    proof (cases "m < 10")
      case True
      then show ?thesis
        using n 1(2) digitChar_inj by (simp add: showNat.simps[of n] showNat.simps[of m])
    next
      case False
      then show ?thesis
        using n 1(2) showNat_nonempty[of "m div 10"]
        by (simp add: showNat.simps[of n] showNat.simps[of m])
    qed
  next
    case False
    note n = this
    show ?thesis
    proof (cases "m < 10")
      case True
      then show ?thesis
        using n 1(2) showNat_nonempty[of "n div 10"]
        by (simp add: showNat.simps[of n] showNat.simps[of m])
    next
      case False
      then have "showNat (n div 10) = showNat (m div 10)"
        and d: "digitChar (n mod 10) = digitChar (m mod 10)"
        using n 1(2) by (simp_all add: showNat.simps[of n] showNat.simps[of m])
      then have "n div 10 = m div 10" using 1(1)[OF n] by blast
      moreover have "n mod 10 = m mod 10" using d digitChar_inj by simp
      ultimately show ?thesis by (metis div_mult_mod_eq)
    qed
  qed
qed

lemma hd_showNat_not_minus: "hd (showNat k @ t) \<noteq> CHR ''-''"
  using showNat_no_minus[of k] showNat_nonempty[of k] by (cases "showNat k") auto

lemma showInt_inj:
  assumes "showInt i = showInt j"
  shows "i = j"
proof (cases "i < 0")
  case True
  note i = this
  show ?thesis
  proof (cases "j < 0")
    case True
    then have "nat (- i) = nat (- j)" using i assms showNat_inj by (simp add: showInt_def)
    then show ?thesis using i True by simp
  next
    case False
    then have "CHR ''-'' # showNat (nat (- i)) = showNat (nat j) @ []"
      using i assms by (simp add: showInt_def)
    then have "hd (showNat (nat j) @ []) = CHR ''-''" by (metis list.sel(1))
    then show ?thesis using hd_showNat_not_minus by blast
  qed
next
  case False
  note i = this
  show ?thesis
  proof (cases "j < 0")
    case True
    then have "showNat (nat i) @ [] = CHR ''-'' # showNat (nat (- j))"
      using i assms by (simp add: showInt_def)
    then have "hd (showNat (nat i) @ []) = CHR ''-''" by (metis list.sel(1))
    then show ?thesis using hd_showNat_not_minus by blast
  next
    case False
    then have "nat i = nat j" using i assms showNat_inj by (simp add: showInt_def)
    then show ?thesis using i False by simp
  qed
qed

section \<open>getTimeAgo against the specified buckets\<close>

lemma div_div_minutes: "(d::int) div 1000 div 60 = d div (60 * 1000)"
  by (simp add: zdiv_zmult2_eq)

lemma div_div_hours: "(d::int) div (60 * 1000) div 60 = d div (60 * (60 * 1000))"
  by (simp add: zdiv_zmult2_eq)

lemma div_div_days: "(d::int) div (60 * (60 * 1000)) div 24 = d div (24 * (60 * (60 * 1000)))"
  by (simp add: zdiv_zmult2_eq)

lemma seconds_lt: "(d::int) div 1000 < 60 \<longleftrightarrow> d < 60 * 1000"
  by simp arith

lemma minutes_lt: "(d::int) div (60 * 1000) < 60 \<longleftrightarrow> d < 60 * (60 * 1000)"
  by simp arith

lemma hours_lt: "(d::int) div (60 * (60 * 1000)) < 24 \<longleftrightarrow> d < 24 * (60 * (60 * 1000))"
  by simp arith

lemma days_lt:
  "(d::int) div (24 * (60 * (60 * 1000))) < 30 \<longleftrightarrow> d < 30 * (24 * (60 * (60 * 1000)))"
  by simp arith

lemma timeAgoUnit_minute:
  "showInt n @ '' '' @ (if n = 1 then ''minute'' else ''minutes'') @ '' ago'' = timeAgoUnit n ''minute''"
  by (simp add: timeAgoUnit_def)

lemma timeAgoUnit_hour:
  "showInt n @ '' '' @ (if n = 1 then ''hour'' else ''hours'') @ '' ago'' = timeAgoUnit n ''hour''"
  by (simp add: timeAgoUnit_def)

lemma timeAgoUnit_day:
  "showInt n @ '' '' @ (if n = 1 then ''day'' else ''days'') @ '' ago'' = timeAgoUnit n ''day''"
  by (simp add: timeAgoUnit_def)

lemma timeAgoUnit_month:
  "showInt n @ '' '' @ (if n = 1 then ''month'' else ''months'') @ '' ago'' = timeAgoUnit n ''month''"
  by (simp add: timeAgoUnit_def)

lemma getTimeAgo_refines: "getTimeAgo now date = timeAgo_spec (now - date)"
  unfolding getTimeAgo_def timeAgo_spec_def Let_def
    timeAgoUnit_minute timeAgoUnit_hour timeAgoUnit_day timeAgoUnit_month
    div_div_minutes div_div_hours div_div_days seconds_lt minutes_lt hours_lt days_lt
  by (rule refl)

section \<open>The like key is injective\<close>

lemma takeWhile_upto_minus:
  "CHR ''-'' \<notin> set a \<Longrightarrow> takeWhile (\<lambda>c. c \<noteq> CHR ''-'') (a @ CHR ''-'' # r) = a"
  by (induction a) auto

lemma split_at_minus:
  assumes "CHR ''-'' \<notin> set a" "CHR ''-'' \<notin> set b" "a @ CHR ''-'' # r = b @ CHR ''-'' # s"
  shows "a = b \<and> r = s"
proof -
  have "a = b"
    using takeWhile_upto_minus[OF assms(1), of r] takeWhile_upto_minus[OF assms(2), of s] assms(3)
    by simp
  then show ?thesis using assms(3) by simp
qed

lemma showNat_split:
  assumes "showNat a @ CHR ''-'' # t = showNat b @ CHR ''-'' # t'"
  shows "a = b \<and> t = t'"
  using split_at_minus[OF showNat_no_minus showNat_no_minus assms] showNat_inj by blast

lemma showInt_split:
  assumes "showInt p @ CHR ''-'' # r = showInt q @ CHR ''-'' # s"
  shows "p = q \<and> r = s"
proof (cases "p < 0")
  case True
  note p = this
  show ?thesis
  proof (cases "q < 0")
    case True
    then have "nat (- p) = nat (- q) \<and> r = s"
      using p assms showNat_split[of "nat (- p)" r "nat (- q)" s] by (simp add: showInt_def)
    then show ?thesis using p True by auto
  next
    case False
    then have "CHR ''-'' # showNat (nat (- p)) @ CHR ''-'' # r = showNat (nat q) @ CHR ''-'' # s"
      using p assms by (simp add: showInt_def)
    then have "hd (showNat (nat q) @ CHR ''-'' # s) = CHR ''-''" by (metis list.sel(1))
    then show ?thesis using hd_showNat_not_minus by blast
  qed
next
  case False
  note p = this
  show ?thesis
  proof (cases "q < 0")
    case True
    then have "showNat (nat p) @ CHR ''-'' # r = CHR ''-'' # showNat (nat (- q)) @ CHR ''-'' # s"
      using p assms by (simp add: showInt_def)
    then have "hd (showNat (nat p) @ CHR ''-'' # r) = CHR ''-''" by (metis list.sel(1))
    then show ?thesis using hd_showNat_not_minus by blast
  next
    case False
    then have "nat p = nat q \<and> r = s"
      using p assms showNat_split[of "nat p" r "nat q" s] by (simp add: showInt_def)
    then show ?thesis using p False by auto
  qed
qed

lemma likeKey_inj: "likeKey p u = likeKey q v \<Longrightarrow> p = q \<and> u = v"
  using showInt_split[of p "showInt u" q "showInt v"] showInt_inj[of u v]
  by (auto simp: likeKey_def)

lemma likeKey_eq_iff: "likeKey p u = likeKey q v \<longleftrightarrow> p = q \<and> u = v"
  using likeKey_inj by blast

section \<open>What likePost does to a MemStorage\<close>

lemma likePost_missing: "map_of (posts s) p = None \<Longrightarrow> likePost s p u = (s, None)"
  by (simp add: likePost_def)

lemma likePost_liked:
  assumes "map_of (posts s) p = Some post" "hasUserLikedPost s p u"
  shows "likePost s p u =
    (s\<lparr> postLikesMap := AList.delete (likeKey p u) (postLikesMap s),
        posts := AList.update p (post\<lparr> post_likes := Some (max 0 (orZero (post_likes post) - 1)) \<rparr>) (posts s) \<rparr>,
     Some (post\<lparr> post_likes := Some (max 0 (orZero (post_likes post) - 1)) \<rparr>))"
  using assms by (simp add: likePost_def hasUserLikedPost_def Let_def)

lemma likePost_not_liked:
  assumes "map_of (posts s) p = Some post" "\<not> hasUserLikedPost s p u"
  shows "likePost s p u =
    (s\<lparr> postLikesMap := AList.update (likeKey p u) True (postLikesMap s),
        posts := AList.update p (post\<lparr> post_likes := Some (orZero (post_likes post) + 1) \<rparr>) (posts s) \<rparr>,
     Some (post\<lparr> post_likes := Some (orZero (post_likes post) + 1) \<rparr>))"
  using assms by (simp add: likePost_def hasUserLikedPost_def Let_def)

lemma hasUserLikedPost_likePost:
  assumes "map_of (posts s) p = Some post"
  shows "hasUserLikedPost (fst (likePost s p u)) q v =
     (if q = p \<and> v = u then \<not> hasUserLikedPost s p u else hasUserLikedPost s q v)"
proof (cases "hasUserLikedPost s p u")
  case True
  show ?thesis
    unfolding likePost_liked[OF assms True]
    using True by (auto simp: hasUserLikedPost_def Let_def delete_conv' likeKey_eq_iff)
next
  case False
  show ?thesis
    unfolding likePost_not_liked[OF assms False]
    using False by (auto simp: hasUserLikedPost_def Let_def update_conv' likeKey_eq_iff)
qed

lemma posts_likePost:
  assumes "map_of (posts s) p = Some post"
  shows "posts (fst (likePost s p u)) =
     AList.update p (post\<lparr> post_likes := Some (if hasUserLikedPost s p u
        then max 0 (orZero (post_likes post) - 1) else orZero (post_likes post) + 1) \<rparr>) (posts s)"
  using likePost_liked[OF assms, of u] likePost_not_liked[OF assms, of u]
  by (cases "hasUserLikedPost s p u") simp_all

lemma likePost_frame:
  "users (fst (likePost s p u)) = users s"
  "comments (fst (likePost s p u)) = comments s"
  "activities (fst (likePost s p u)) = activities s"
  "userCurrentId (fst (likePost s p u)) = userCurrentId s"
  "postCurrentId (fst (likePost s p u)) = postCurrentId s"
  "activityCurrentId (fst (likePost s p u)) = activityCurrentId s"
  "commentCurrentId (fst (likePost s p u)) = commentCurrentId s"
  by (simp_all add: likePost_def Let_def split: option.splits)

lemma finite_likers: "finite (likers s p)"
proof -
  have "likers s p = likeKey p -` dom (map_of (postLikesMap s))"
    by (auto simp: likers_def hasUserLikedPost_def Let_def)
  moreover have "inj (likeKey p)"
    by (simp add: inj_on_def likeKey_eq_iff)
  ultimately show ?thesis
    by (simp add: finite_vimageI finite_dom_map_of)
qed

lemma likers_likePost:
  assumes "map_of (posts s) p = Some post"
  shows "likers (fst (likePost s p u)) q =
     (if q = p then (if hasUserLikedPost s p u then likers s p - {u} else insert u (likers s p))
      else likers s q)"
  unfolding likers_def hasUserLikedPost_likePost[OF assms]
  by auto

lemma card_likers_likePost:
  assumes "map_of (posts s) p = Some post"
  shows "int (card (likers (fst (likePost s p u)) p)) =
     (if hasUserLikedPost s p u then int (card (likers s p)) - 1 else int (card (likers s p)) + 1)"
proof (cases "hasUserLikedPost s p u")
  case True
  then have "u \<in> likers s p" by (simp add: likers_def)
  then have "card (likers s p) \<noteq> 0"
    using finite_likers[of s p] by auto
  moreover have "card (likers s p - {u}) = card (likers s p) - 1"
    using \<open>u \<in> likers s p\<close> finite_likers[of s p] by simp
  ultimately show ?thesis using True likers_likePost[OF assms, of u p] by (simp add: of_nat_diff)
next
  case False
  then have "u \<notin> likers s p" by (simp add: likers_def)
  then have "card (insert u (likers s p)) = card (likers s p) + 1"
    using finite_likers[of s p] by simp
  then show ?thesis using False likers_likePost[OF assms, of u p] by simp
qed


section \<open>What the other methods do to a MemStorage\<close>

lemma update_fresh: "map_of al k = None \<Longrightarrow> AList.update k v al = al @ [(k, v)]"
  by (induction al) (auto split: if_splits)

lemma hasUserLikedPost_cong:
  "postLikesMap s' = postLikesMap s \<Longrightarrow> hasUserLikedPost s' p u = hasUserLikedPost s p u"
  by (simp add: hasUserLikedPost_def)

lemma likers_cong: "postLikesMap s' = postLikesMap s \<Longrightarrow> likers s' p = likers s p"
  by (simp add: likers_def hasUserLikedPost_def)

lemma createUser_frame:
  "posts (fst (createUser s ud)) = posts s"
  "comments (fst (createUser s ud)) = comments s"
  "postLikesMap (fst (createUser s ud)) = postLikesMap s"
  "postCurrentId (fst (createUser s ud)) = postCurrentId s"
  "commentCurrentId (fst (createUser s ud)) = commentCurrentId s"
  by (simp_all add: createUser_def createUserInternal_def Let_def)

lemma createUser_users:
  "users (fst (createUser s ud)) = AList.update (userCurrentId s) (snd (createUser s ud)) (users s)"
  "userCurrentId (fst (createUser s ud)) = userCurrentId s + 1"
  "snd (createUser s ud) =
     \<lparr> user_id = userCurrentId s, user_username = iu_username ud, user_password = iu_password ud,
       user_fullName = iu_fullName ud, user_avatar = orNull (iu_avatar ud),
       user_role = orNull (iu_role ud) \<rparr>"
  by (simp_all add: createUser_def createUserInternal_def Let_def)

lemma createPost_frame:
  "posts (fst (createPost s pd now)) = AList.update (postCurrentId s) (snd (createPost s pd now)) (posts s)"
  "post_id (snd (createPost s pd now)) = postCurrentId s"
  "post_likes (snd (createPost s pd now)) = Some 0"
  "post_comments (snd (createPost s pd now)) = Some 0"
  "comments (fst (createPost s pd now)) = comments s"
  "users (fst (createPost s pd now)) = users s"
  "postLikesMap (fst (createPost s pd now)) = postLikesMap s"
  "postCurrentId (fst (createPost s pd now)) = postCurrentId s + 1"
  "commentCurrentId (fst (createPost s pd now)) = commentCurrentId s"
  "userCurrentId (fst (createPost s pd now)) = userCurrentId s"
  by (simp_all add: createPost_def createPostInternal_def Let_def)

lemma createComment_frame:
  "comments (fst (createComment s cd now)) = AList.update (commentCurrentId s) (snd (createComment s cd now)) (comments s)"
  "users (fst (createComment s cd now)) = users s"
  "postLikesMap (fst (createComment s cd now)) = postLikesMap s"
  "postCurrentId (fst (createComment s cd now)) = postCurrentId s"
  "commentCurrentId (fst (createComment s cd now)) = commentCurrentId s + 1"
  "userCurrentId (fst (createComment s cd now)) = userCurrentId s"
  "snd (createComment s cd now) =
     \<lparr> comment_id = commentCurrentId s, comment_content = ic_content cd,
       comment_postId = ic_postId cd, comment_userId = ic_userId cd, comment_createdAt = now \<rparr>"
  by (simp_all add: createComment_def Let_def split: option.splits)

lemma createComment_posts:
  "posts (fst (createComment s cd now)) =
     (case map_of (posts s) (ic_postId cd) of
        None \<Rightarrow> posts s
      | Some post \<Rightarrow> AList.update (ic_postId cd)
          (post\<lparr> post_comments := Some (orZero (post_comments post) + 1) \<rparr>) (posts s))"
  by (simp add: createComment_def Let_def split: option.splits)

section \<open>The invariant holds in every reachable state\<close>

lemma memInv_new: "memInv (newMemStorage now1 now2)"
  by (simp add: memInv_def newMemStorage_def initDemoData_def emptyMemStorage_def
      createUserInternal_def createPostInternal_def createActivityInternal_def Let_def
      likers_def hasUserLikedPost_def)

lemma memInv_createUser: "memInv s \<Longrightarrow> memInv (fst (createUser s ud))"
  unfolding memInv_def
  by (auto simp: createUser_frame createUser_users(1,2) update_conv'
      likers_cong[OF createUser_frame(3)] hasUserLikedPost_cong[OF createUser_frame(3)]
      split: if_splits)

lemma memInv_createPost:
  assumes "memInv s"
  shows "memInv (fst (createPost s pd now))"
proof -
  let ?s = "fst (createPost s pd now)"
  have fresh: "map_of (posts s) (postCurrentId s) = None"
    using assms unfolding memInv_def by (metis less_irrefl)
  have nolikers: "likers s (postCurrentId s) = {}"
    using assms fresh unfolding memInv_def likers_def by auto
  have l: "likers ?s p = likers s p" for p
    by (rule likers_cong) (simp add: createPost_frame)
  have h: "hasUserLikedPost ?s p u = hasUserLikedPost s p u" for p u
    by (rule hasUserLikedPost_cong) (simp add: createPost_frame)
  show ?thesis
    unfolding memInv_def
  proof (intro conjI allI impI)
    fix p assume "map_of (posts ?s) p \<noteq> None"
    then show "p < postCurrentId ?s"
      using assms unfolding memInv_def
      by (auto simp: createPost_frame update_conv' split: if_splits)
  next
    fix c assume "map_of (comments ?s) c \<noteq> None"
    then show "c < commentCurrentId ?s"
      using assms unfolding memInv_def by (simp add: createPost_frame)
  next
    fix p u assume "hasUserLikedPost ?s p u"
    then show "map_of (posts ?s) p \<noteq> None"
      using assms unfolding memInv_def h
      by (auto simp: createPost_frame update_conv')
  next
    fix p post assume "map_of (posts ?s) p = Some post"
    then show "\<exists>n. post_likes post = Some n \<and> int (card (likers ?s p)) \<le> n"
      using assms nolikers unfolding memInv_def l
      by (auto simp: createPost_frame update_conv' split: if_splits)
  next
    fix k assume "map_of (users ?s) k \<noteq> None"
    then show "k < userCurrentId ?s"
      using assms unfolding memInv_def by (simp add: createPost_frame)
  qed
qed

lemma memInv_createComment:
  assumes "memInv s"
  shows "memInv (fst (createComment s cd now))"
proof -
  let ?s = "fst (createComment s cd now)"
  have l: "likers ?s p = likers s p" for p
    by (rule likers_cong) (simp add: createComment_frame)
  have h: "hasUserLikedPost ?s p u = hasUserLikedPost s p u" for p u
    by (rule hasUserLikedPost_cong) (simp add: createComment_frame)
  have dom_posts: "map_of (posts ?s) p \<noteq> None \<longleftrightarrow> map_of (posts s) p \<noteq> None" for p
    by (auto simp: createComment_posts update_conv' split: option.splits if_splits)
  have likes_posts: "\<exists>post0. map_of (posts s) p = Some post0 \<and> post_likes post0 = post_likes post"
    if "map_of (posts ?s) p = Some post" for p post
    using that by (auto simp: createComment_posts update_conv' split: option.splits if_splits)
  show ?thesis
    unfolding memInv_def
  proof (intro conjI allI impI)
    fix p assume "map_of (posts ?s) p \<noteq> None"
    then show "p < postCurrentId ?s"
      using assms unfolding memInv_def dom_posts by (simp add: createComment_frame)
  next
    fix c assume "map_of (comments ?s) c \<noteq> None"
    then show "c < commentCurrentId ?s"
      using assms unfolding memInv_def
      by (auto simp: createComment_frame(1,5) update_conv' split: if_splits)
  next
    fix p u assume "hasUserLikedPost ?s p u"
    then show "map_of (posts ?s) p \<noteq> None"
      using assms unfolding memInv_def h dom_posts by blast
  next
    fix p post assume "map_of (posts ?s) p = Some post"
    from likes_posts[OF this] show "\<exists>n. post_likes post = Some n \<and> int (card (likers ?s p)) \<le> n"
      using assms unfolding memInv_def l by metis
  next
    fix k assume "map_of (users ?s) k \<noteq> None"
    then show "k < userCurrentId ?s"
      using assms unfolding memInv_def by (simp add: createComment_frame)
  qed
qed

lemma memInv_likePost:
  assumes "memInv s"
  shows "memInv (fst (likePost s p u))"
proof (cases "map_of (posts s) p")
  case None
  then show ?thesis using assms by (simp add: likePost_missing)
next
  case (Some post)
  let ?s = "fst (likePost s p u)"
  obtain n where n: "post_likes post = Some n" "int (card (likers s p)) \<le> n"
    using assms Some unfolding memInv_def by blast
  have dom_posts: "map_of (posts ?s) q \<noteq> None \<longleftrightarrow> map_of (posts s) q \<noteq> None" for q
    using Some by (auto simp: posts_likePost[OF Some] update_conv')
  show ?thesis
    unfolding memInv_def
  proof (intro conjI allI impI)
    fix q assume "map_of (posts ?s) q \<noteq> None"
    then show "q < postCurrentId ?s"
      using assms unfolding memInv_def dom_posts by (simp add: likePost_frame)
  next
    fix c assume "map_of (comments ?s) c \<noteq> None"
    then show "c < commentCurrentId ?s"
      using assms unfolding memInv_def by (simp add: likePost_frame)
  next
    fix q v assume "hasUserLikedPost ?s q v"
    then show "map_of (posts ?s) q \<noteq> None"
      using assms Some unfolding memInv_def dom_posts hasUserLikedPost_likePost[OF Some]
      by (auto split: if_splits)
  next
    fix q post' assume q: "map_of (posts ?s) q = Some post'"
    show "\<exists>m. post_likes post' = Some m \<and> int (card (likers ?s q)) \<le> m"
    proof (cases "q = p")
      case True
      then have "post_likes post' = Some (if hasUserLikedPost s p u
          then max 0 (orZero (post_likes post) - 1) else orZero (post_likes post) + 1)"
        using q by (auto simp: posts_likePost[OF Some] update_conv')
      then show ?thesis
        using n True card_likers_likePost[OF Some, of u] by (auto simp: orZero_def)
    next
      case False
      then have "map_of (posts s) q = Some post'"
        using q by (simp add: posts_likePost[OF Some] update_conv')
      then show ?thesis
        using assms False unfolding memInv_def likers_likePost[OF Some] by simp
    qed
  next
    fix k assume "map_of (users ?s) k \<noteq> None"
    then show "k < userCurrentId ?s"
      using assms unfolding memInv_def by (simp add: likePost_frame)
  qed
qed

lemma reachable_memInv: "reachable s \<Longrightarrow> memInv s"
  by (induction rule: reachable.induct)
    (simp_all add: memInv_new memInv_createUser memInv_createPost memInv_likePost memInv_createComment)


section \<open>Likes of a post created through createPost\<close>

lemma likesExact_likePost:
  assumes "likesExact s p"
  shows "likesExact (fst (likePost s p u)) p"
proof -
  obtain post where post: "map_of (posts s) p = Some post"
    and likes: "post_likes post = Some (int (card (likers s p)))"
    using assms unfolding likesExact_def by blast
  show ?thesis
  proof (cases "hasUserLikedPost s p u")
    case True
    then have "u \<in> likers s p" by (simp add: likers_def)
    then have "card (likers s p) \<noteq> 0" using finite_likers[of s p] by auto
    then show ?thesis
      unfolding likesExact_def
      using True likes card_likers_likePost[OF post, of u]
      by (simp add: posts_likePost[OF post] update_conv' orZero_def)
  next
    case False
    then show ?thesis
      unfolding likesExact_def
      using likes card_likers_likePost[OF post, of u]
      by (simp add: posts_likePost[OF post] update_conv' orZero_def)
  qed
qed

lemma likePostSeq_Nil: "likePostSeq s p [] = s"
  by (simp add: likePostSeq_def)

lemma likePostSeq_Cons: "likePostSeq s p (u # us) = likePostSeq (fst (likePost s p u)) p us"
  by (simp add: likePostSeq_def)

lemma likesExact_likePostSeq: "likesExact s p \<Longrightarrow> likesExact (likePostSeq s p us) p"
  by (induction us arbitrary: s) (simp_all add: likePostSeq_Nil likePostSeq_Cons likesExact_likePost)

lemma likers_likePostSeq_distinct:
  assumes "map_of (posts s) p \<noteq> None" "distinct us" "set us \<inter> likers s p = {}"
  shows "likers (likePostSeq s p us) p = likers s p \<union> set us"
  using assms
proof (induction us arbitrary: s)
  case Nil
  then show ?case by (simp add: likePostSeq_Nil)
next
  case (Cons u us)
  obtain post where post: "map_of (posts s) p = Some post" using Cons.prems(1) by blast
  let ?s = "fst (likePost s p u)"
  have notliked: "\<not> hasUserLikedPost s p u" using Cons.prems(3) by (auto simp: likers_def)
  have l: "likers ?s p = insert u (likers s p)"
    using notliked by (simp add: likers_likePost[OF post])
  have "map_of (posts ?s) p \<noteq> None"
    by (simp add: posts_likePost[OF post] update_conv')
  moreover have "distinct us" using Cons.prems(2) by simp
  moreover have "set us \<inter> likers ?s p = {}" using Cons.prems(2,3) l by auto
  ultimately have "likers (likePostSeq ?s p us) p = likers ?s p \<union> set us"
    by (rule Cons.IH)
  then show ?case by (simp add: likePostSeq_Cons l)
qed

lemma createPost_fresh:
  assumes "reachable s"
  shows "map_of (posts s) (postCurrentId s) = None" "likers s (postCurrentId s) = {}"
proof -
  have inv: "memInv s" using assms by (rule reachable_memInv)
  show f: "map_of (posts s) (postCurrentId s) = None"
    using inv unfolding memInv_def by (metis less_irrefl)
  show "likers s (postCurrentId s) = {}"
    using inv f unfolding memInv_def likers_def by auto
qed

lemma createPost_likesExact:
  assumes "reachable s"
  shows "likesExact (fst (createPost s pd now)) (post_id (snd (createPost s pd now)))"
    "likers (fst (createPost s pd now)) (post_id (snd (createPost s pd now))) = {}"
proof -
  have l: "likers (fst (createPost s pd now)) p = likers s p" for p
    by (rule likers_cong) (simp add: createPost_frame)
  show "likers (fst (createPost s pd now)) (post_id (snd (createPost s pd now))) = {}"
    using createPost_fresh[OF assms] by (simp add: l createPost_frame)
  then show "likesExact (fst (createPost s pd now)) (post_id (snd (createPost s pd now)))"
    unfolding likesExact_def by (simp add: createPost_frame update_conv')
qed


section \<open>What likePost does to the database\<close>

lemma firstRow_filter_map:
  assumes "\<And>x. P (f x) = P x"
  shows "firstRow (filter P (map f xs)) = map_option f (firstRow (filter P xs))"
  using assms by (induction xs) (auto simp: firstRow_def)

lemma firstRow_Some_nonempty: "firstRow rows = Some r \<Longrightarrow> rows \<noteq> []"
  by (auto simp: firstRow_def)

lemma firstRow_None_iff: "firstRow rows = None \<longleftrightarrow> rows = []"
  by (cases rows) (auto simp: firstRow_def)

lemma select_posts_after_set_likes:
  "firstRow (filter (\<lambda>r. post_id r = p)
      (map (\<lambda>r. if post_id r = p then r\<lparr> post_likes := Some v \<rparr> else r) rows)) =
   map_option (\<lambda>r. r\<lparr> post_likes := Some v \<rparr>) (firstRow (filter (\<lambda>r. post_id r = p) rows))"
  by (induction rows) (auto simp: firstRow_def)

lemma db_hasUserLikedPost_in_range:
  "int4 p \<Longrightarrow> int4 u \<Longrightarrow> db_hasUserLikedPost d p u = Inr (select_postLikes d p u \<noteq> [])"
  by (simp add: db_hasUserLikedPost_def)

lemma db_hasUserLikedPost_out_of_range:
  "\<not> (int4 p \<and> int4 u) \<Longrightarrow>
     db_hasUserLikedPost d p u = Inl (QueryError ''value out of range for type integer'')"
  by (simp add: db_hasUserLikedPost_def)

lemma select_postLikes_alt:
  "select_postLikes d p u \<noteq> [] \<longleftrightarrow>
     (\<exists>l \<in> set (postLikes_table d). pl_postId l = p \<and> pl_userId l = u)"
  by (auto simp: select_postLikes_def filter_empty_conv)

lemma select_postLikes_empty:
  "select_postLikes d p u = [] \<longleftrightarrow>
     (\<forall>l \<in> set (postLikes_table d). \<not> (pl_postId l = p \<and> pl_userId l = u))"
  by (auto simp: select_postLikes_def filter_empty_conv)

lemma db_hasUserLikedPost_cong:
  assumes "(select_postLikes d' q v \<noteq> []) = (select_postLikes d q v \<noteq> [])"
  shows "db_hasUserLikedPost d' q v = db_hasUserLikedPost d q v"
  using assms by (simp add: db_hasUserLikedPost_def)

lemma db_likePost_out_of_range:
  "\<not> int4 p \<Longrightarrow>
     db_likePost d p u now = (d, Inl (QueryError ''value out of range for type integer''))"
  by (simp add: db_likePost_def)

lemma db_likePost_missing:
  "int4 p \<Longrightarrow> select_posts_by_id d p = [] \<Longrightarrow> db_likePost d p u now = (d, Inr None)"
  by (simp add: db_likePost_def firstRow_def)

lemma db_likePost_bad_user:
  assumes "int4 p" "firstRow (select_posts_by_id d p) = Some row" "\<not> int4 u"
  shows "db_likePost d p u now = (d, Inl (QueryError ''value out of range for type integer''))"
  using assms by (simp add: db_likePost_def db_hasUserLikedPost_def)

lemma db_likePost_liked:
  assumes "firstRow (select_posts_by_id d p) = Some row" "select_postLikes d p u \<noteq> []"
    "int4 p" "int4 u"
  shows "db_likePost d p u now =
    (d\<lparr> postLikes_table := filter (\<lambda>l. \<not> (pl_postId l = p \<and> pl_userId l = u)) (postLikes_table d),
        posts_table := map (\<lambda>r. if post_id r = p
            then r\<lparr> post_likes := Some (max 0 (orZero (post_likes row) - 1)) \<rparr> else r) (posts_table d) \<rparr>,
     Inr (Some (row\<lparr> post_likes := Some (max 0 (orZero (post_likes row) - 1)) \<rparr>)))"
  using assms select_posts_after_set_likes[of p _ "posts_table d"]
  by (simp add: db_likePost_def db_hasUserLikedPost_def Let_def delete_postLikes_def
      update_posts_set_likes_def select_posts_by_id_def)

lemma db_likePost_not_liked:
  assumes "firstRow (select_posts_by_id d p) = Some row" "select_postLikes d p u = []"
    "select_users_by_id d u \<noteq> []" "int4 p" "int4 u"
  shows "db_likePost d p u now =
    (d\<lparr> postLikes_table := postLikes_table d @ [\<lparr> pl_postId = p, pl_userId = u, pl_createdAt = now \<rparr>],
        posts_table := map (\<lambda>r. if post_id r = p
            then r\<lparr> post_likes := Some (orZero (post_likes row) + 1) \<rparr> else r) (posts_table d) \<rparr>,
     Inr (Some (row\<lparr> post_likes := Some (orZero (post_likes row) + 1) \<rparr>)))"
  using assms select_posts_after_set_likes[of p _ "posts_table d"]
    firstRow_Some_nonempty[OF assms(1)]
  by (simp add: db_likePost_def Let_def insert_postLikes_def update_posts_set_likes_def
      select_posts_by_id_def db_hasUserLikedPost_def)

lemma db_likePost_no_user:
  assumes "firstRow (select_posts_by_id d p) = Some row" "select_postLikes d p u = []"
    "select_users_by_id d u = []" "int4 p" "int4 u"
  shows "db_likePost d p u now =
    (d, Inl (ConstraintViolation ''post_likes.user_id references users.id''))"
  using assms firstRow_Some_nonempty[OF assms(1)]
  by (simp add: db_likePost_def Let_def insert_postLikes_def db_hasUserLikedPost_def)

lemma select_postLikes_likePost:
  assumes "firstRow (select_posts_by_id d p) = Some row" "select_users_by_id d u \<noteq> []"
    "int4 p" "int4 u"
  shows "(select_postLikes (fst (db_likePost d p u now)) q v \<noteq> []) =
     (if q = p \<and> v = u then select_postLikes d p u = [] else select_postLikes d q v \<noteq> [])"
proof (cases "select_postLikes d p u = []")
  case True
  show ?thesis
    unfolding db_likePost_not_liked[OF assms(1) True assms(2,3,4)]
    using True by (auto simp: select_postLikes_alt select_postLikes_empty)
next
  case False
  show ?thesis
    unfolding db_likePost_liked[OF assms(1) False assms(3,4)]
    using False by (auto simp: select_postLikes_alt select_postLikes_empty)
qed

lemma mem_returns_stored:
  assumes "map_of (posts s) p = Some post"
  shows "snd (likePost s p u) = map_of (posts (fst (likePost s p u))) p"
  using likePost_liked[OF assms, of u] likePost_not_liked[OF assms, of u]
  by (cases "hasUserLikedPost s p u") (simp_all add: update_conv')

lemma likeRoute_found:
  assumes "db_likePost d p (user_id user) now = (d', Inr (Some post'))"
    and "db_hasUserLikedPost d p (user_id user) = Inr liked"
  shows "likeRoute d \<lparr> req_id = IntegerId p, req_user = Some user \<rparr> now =
     (d', (200, LikeResult post' (\<not> liked)))"
  using assms by (simp add: likeRoute_def Let_def)





section \<open>What likePost leaves alone\<close>

lemma map_fst_update_present:
  "map_of al k \<noteq> None \<Longrightarrow> map fst (AList.update k v al) = map fst al"
  by (induction al) auto

lemma db_likePost_cases:
  obtains (unchanged) "fst (db_likePost d p u now) = d"
  | (liked) v where "fst (db_likePost d p u now) =
      d\<lparr> postLikes_table := filter (\<lambda>l. \<not> (pl_postId l = p \<and> pl_userId l = u)) (postLikes_table d),
         posts_table := map (\<lambda>r. if post_id r = p then r\<lparr> post_likes := Some v \<rparr> else r) (posts_table d) \<rparr>"
  | (not_liked) v where "fst (db_likePost d p u now) =
      d\<lparr> postLikes_table := postLikes_table d @ [\<lparr> pl_postId = p, pl_userId = u, pl_createdAt = now \<rparr>],
         posts_table := map (\<lambda>r. if post_id r = p then r\<lparr> post_likes := Some v \<rparr> else r) (posts_table d) \<rparr>"
proof (cases "int4 p")
  case False
  then show ?thesis using unchanged db_likePost_out_of_range by simp
next
  case p: True
  show ?thesis
  proof (cases "firstRow (select_posts_by_id d p)")
    case None
    then have "select_posts_by_id d p = []" by (simp add: firstRow_None_iff)
    then show ?thesis using unchanged db_likePost_missing[OF p] by simp
  next
    case (Some row)
    show ?thesis
    proof (cases "int4 u")
      case False
      then show ?thesis using unchanged db_likePost_bad_user[OF p Some] by simp
    next
      case u: True
      show ?thesis
      proof (cases "select_postLikes d p u = []")
        case False
        then show ?thesis using liked db_likePost_liked[OF Some False p u, of now] by simp
      next
        case True
        then show ?thesis
          using not_liked unchanged db_likePost_not_liked[OF Some True _ p u, of now]
            db_likePost_no_user[OF Some True _ p u, of now]
          by (cases "select_users_by_id d u = []") simp_all
      qed
    qed
  qed
qed

lemma db_likePost_frame:
  "users_table (fst (db_likePost d p u now)) = users_table d"
  "comments_table (fst (db_likePost d p u now)) = comments_table d"
  "users_id_seq (fst (db_likePost d p u now)) = users_id_seq d"
  "posts_id_seq (fst (db_likePost d p u now)) = posts_id_seq d"
  "comments_id_seq (fst (db_likePost d p u now)) = comments_id_seq d"
  by (rule db_likePost_cases[of d p u now]; simp)+

lemma db_likePost_other_likes:
  "filter (\<lambda>l. \<not> (pl_postId l = p \<and> pl_userId l = u)) (postLikes_table (fst (db_likePost d p u now))) =
   filter (\<lambda>l. \<not> (pl_postId l = p \<and> pl_userId l = u)) (postLikes_table d)"
  by (rule db_likePost_cases[of d p u now]) simp_all

lemma db_likePost_other_pairs:
  assumes "(q, v) \<noteq> (p, u)"
  shows "db_hasUserLikedPost (fst (db_likePost d p u now)) q v = db_hasUserLikedPost d q v"
proof (rule db_hasUserLikedPost_cong, rule db_likePost_cases[of d p u now])
  assume "fst (db_likePost d p u now) = d"
  then show "(select_postLikes (fst (db_likePost d p u now)) q v \<noteq> []) = (select_postLikes d q v \<noteq> [])"
    by simp
next
  fix w assume "fst (db_likePost d p u now) =
      d\<lparr> postLikes_table := filter (\<lambda>l. \<not> (pl_postId l = p \<and> pl_userId l = u)) (postLikes_table d),
         posts_table := map (\<lambda>r. if post_id r = p then r\<lparr> post_likes := Some w \<rparr> else r) (posts_table d) \<rparr>"
  then show "(select_postLikes (fst (db_likePost d p u now)) q v \<noteq> []) = (select_postLikes d q v \<noteq> [])"
    using assms by (auto simp: select_postLikes_alt)
next
  fix w assume "fst (db_likePost d p u now) =
      d\<lparr> postLikes_table := postLikes_table d @ [\<lparr> pl_postId = p, pl_userId = u, pl_createdAt = now \<rparr>],
         posts_table := map (\<lambda>r. if post_id r = p then r\<lparr> post_likes := Some w \<rparr> else r) (posts_table d) \<rparr>"
  then show "(select_postLikes (fst (db_likePost d p u now)) q v \<noteq> []) = (select_postLikes d q v \<noteq> [])"
    using assms by (auto simp: select_postLikes_alt)
qed

lemma db_likePost_posts:
  "posts_table (fst (db_likePost d p u now)) = posts_table d \<or>
   (\<exists>v. posts_table (fst (db_likePost d p u now)) =
      map (\<lambda>r. if post_id r = p then r\<lparr> post_likes := Some v \<rparr> else r) (posts_table d))"
  by (rule db_likePost_cases[of d p u now]) auto


section \<open>The comment list after createComment\<close>














section \<open>createComment on the database\<close>






section \<open>createUser\<close>

lemma db_createUser_fresh:
  assumes "select_users_by_id d (users_id_seq d) = []"
    and "filter (\<lambda>u. user_username u = iu_username ud) (users_table d) = []"
  shows "db_createUser d ud =
    (d\<lparr> users_id_seq := users_id_seq d + 1,
        users_table := users_table d @
          [\<lparr> user_id = users_id_seq d, user_username = iu_username ud,
             user_password = iu_password ud, user_fullName = iu_fullName ud,
             user_avatar = iu_avatar ud, user_role = iu_role ud \<rparr>] \<rparr>,
     Inr \<lparr> user_id = users_id_seq d, user_username = iu_username ud,
           user_password = iu_password ud, user_fullName = iu_fullName ud,
           user_avatar = iu_avatar ud, user_role = iu_role ud \<rparr>)"
  using assms by (simp add: db_createUser_def insert_users_def Let_def)

lemma db_createUser_taken:
  assumes "filter (\<lambda>u. user_username u = iu_username ud) (users_table d) \<noteq> []"
  shows "\<exists>e. db_createUser d ud = (d\<lparr> users_id_seq := users_id_seq d + 1 \<rparr>, Inl e)"
  using assms by (simp add: db_createUser_def insert_users_def Let_def)

lemma createUser_fresh:
  assumes "reachable s"
  shows "map_of (users s) (userCurrentId s) = None"
  using reachable_memInv[OF assms] unfolding memInv_def by (metis less_irrefl)

section \<open>likePost statement by statement\<close>

lemma likePostAlone_eq:
  "likePostAlone d p u now = (fst (db_likePost d p u now), Returned (snd (db_likePost d p u now)))"
  by (simp add: likePostAlone_def db_likePost_def Let_def split: option.splits sum.splits prod.splits)

section \<open>Comment ids in a reachable database\<close>









section \<open>Evaluating the examples\<close>

lemmas mem_eval = demoMem_def newMemStorage_def initDemoData_def emptyMemStorage_def
  createUserInternal_def createPostInternal_def createActivityInternal_def Let_def
  createUser_def createPost_def createComment_def likePostSeq_def likePost_def likeKey_def
  showInt_def showNat.simps digitChar_def orZero_def orNull_def hasUserLikedPost_def
  getUserByUsername_def roadmapPost_def greatComment_def orphanComment_def ghostComment_def
  secondAlex_def freshUser_def userB_def

lemmas db_eval = demoDb_def roadmapDb_def initDatabase_def emptyDatabase_def insert_users_def
  insert_posts_def insert_comments_def insert_postLikes_def delete_postLikes_def
  update_posts_set_likes_def update_posts_increment_comments_def select_users_by_id_def
  select_posts_by_id_def select_postLikes_def firstRow_def db_getUserById_def db_createUser_def
  db_createPost_def db_hasUserLikedPost_def db_likePost_def db_createComment_def
  likeRoute_def int4_def Let_def orZero_def orNull_def roadmapPost_def greatComment_def
  orphanComment_def ghostComment_def secondAlex_def freshUser_def userB_def

lemma reachable_demoMem: "reachable demoMem"
  unfolding demoMem_def by (rule r_new)

section \<open>The claims\<close>

text \<open>
  C1. For every stored post \<open>p\<close> and every user \<open>u\<close>, likePost follows the toggle rule.
  If the pair \<open>(p, u)\<close> is in the like relation it is removed and the likes of \<open>p\<close> become
  \<open>max 0 (old - 1)\<close>; if it is absent it is inserted and the likes become \<open>old + 1\<close>, where
  \<open>old\<close> is \<^verbatim>\<open>post.likes || 0\<close>. The method returns the updated post as it is stored.
  This holds for MemStorage, and for DatabaseStorage when the post row and the user row exist
  (the like row references the users table) with ids the 32-bit id columns can hold, as the
  ids of stored rows are; there hasUserLikedPost reads the like status, and the like route
  answers 200 with the updated post and the complement of the status it read before the
  toggle.
\<close>

theorem C1_toggle_transition:
  "(map_of (posts s) p = Some post \<longrightarrow>
      (let old = orZero (post_likes post); s' = fst (likePost s p u); r = snd (likePost s p u) in
         map_of (posts s') p = r \<and>
         (if hasUserLikedPost s p u
          then \<not> hasUserLikedPost s' p u \<and> r = Some (post\<lparr> post_likes := Some (max 0 (old - 1)) \<rparr>)
          else hasUserLikedPost s' p u \<and> r = Some (post\<lparr> post_likes := Some (old + 1) \<rparr>))))
   \<and>
   (firstRow (select_posts_by_id d p) = Some row \<and> select_users_by_id d (user_id user) \<noteq> [] \<and>
    int4 p \<and> int4 (user_id user) \<longrightarrow>
      (let old = orZero (post_likes row); u' = user_id user;
           liked = (select_postLikes d p u' \<noteq> []);
           d' = fst (db_likePost d p u' now); r = snd (db_likePost d p u' now);
           new = (if liked then max 0 (old - 1) else old + 1) in
         db_hasUserLikedPost d p u' = Inr liked \<and>
         r = Inr (Some (row\<lparr> post_likes := Some new \<rparr>)) \<and>
         firstRow (select_posts_by_id d' p) = Some (row\<lparr> post_likes := Some new \<rparr>) \<and>
         db_hasUserLikedPost d' p u' = Inr (\<not> liked) \<and>
         likeRoute d \<lparr> req_id = IntegerId p, req_user = Some user \<rparr> now =
           (d', (200, LikeResult (row\<lparr> post_likes := Some new \<rparr>) (\<not> liked)))))"
proof (intro conjI impI)
  assume post: "map_of (posts s) p = Some post"
  show "let old = orZero (post_likes post); s' = fst (likePost s p u); r = snd (likePost s p u) in
         map_of (posts s') p = r \<and>
         (if hasUserLikedPost s p u
          then \<not> hasUserLikedPost s' p u \<and> r = Some (post\<lparr> post_likes := Some (max 0 (old - 1)) \<rparr>)
          else hasUserLikedPost s' p u \<and> r = Some (post\<lparr> post_likes := Some (old + 1) \<rparr>))"
    using mem_returns_stored[OF post, of u, symmetric] hasUserLikedPost_likePost[OF post, of u p u]
      likePost_liked[OF post, of u] likePost_not_liked[OF post, of u]
    by (cases "hasUserLikedPost s p u") (simp_all add: Let_def)
next
  assume a: "firstRow (select_posts_by_id d p) = Some row \<and> select_users_by_id d (user_id user) \<noteq> [] \<and>
    int4 p \<and> int4 (user_id user)"
  then have row: "firstRow (select_posts_by_id d p) = Some row"
    and usr: "select_users_by_id d (user_id user) \<noteq> []"
    and p: "int4 p" and u: "int4 (user_id user)" by simp_all
  define liked where "liked = (select_postLikes d p (user_id user) \<noteq> [])"
  define new where "new = (if liked then max 0 (orZero (post_likes row) - 1)
      else orZero (post_likes row) + 1)"
  have before: "db_hasUserLikedPost d p (user_id user) = Inr liked"
    unfolding liked_def by (rule db_hasUserLikedPost_in_range[OF p u])
  have r: "snd (db_likePost d p (user_id user) now) = Inr (Some (row\<lparr> post_likes := Some new \<rparr>))"
    using db_likePost_liked[OF row _ p u, of now] db_likePost_not_liked[OF row _ usr p u, of now]
    by (cases "select_postLikes d p (user_id user) = []") (simp_all add: new_def liked_def)
  have stored: "firstRow (select_posts_by_id (fst (db_likePost d p (user_id user) now)) p) =
      Some (row\<lparr> post_likes := Some new \<rparr>)"
    using db_likePost_liked[OF row _ p u, of now] db_likePost_not_liked[OF row _ usr p u, of now]
      row
    by (cases "select_postLikes d p (user_id user) = []")
      (simp_all add: new_def liked_def select_posts_by_id_def select_posts_after_set_likes)
  have flip: "db_hasUserLikedPost (fst (db_likePost d p (user_id user) now)) p (user_id user) =
      Inr (\<not> liked)"
    unfolding db_hasUserLikedPost_in_range[OF p u] liked_def
    by (simp add: select_postLikes_likePost[OF row usr p u])
  have route: "likeRoute d \<lparr> req_id = IntegerId p, req_user = Some user \<rparr> now =
      (fst (db_likePost d p (user_id user) now),
       (200, LikeResult (row\<lparr> post_likes := Some new \<rparr>) (\<not> liked)))"
    by (rule likeRoute_found[OF _ before]) (simp add: r[symmetric])
  show "let old = orZero (post_likes row); u' = user_id user;
           liked = (select_postLikes d p u' \<noteq> []);
           d' = fst (db_likePost d p u' now); r = snd (db_likePost d p u' now);
           new = (if liked then max 0 (old - 1) else old + 1) in
         db_hasUserLikedPost d p u' = Inr liked \<and>
         r = Inr (Some (row\<lparr> post_likes := Some new \<rparr>)) \<and>
         firstRow (select_posts_by_id d' p) = Some (row\<lparr> post_likes := Some new \<rparr>) \<and>
         db_hasUserLikedPost d' p u' = Inr (\<not> liked) \<and>
         likeRoute d \<lparr> req_id = IntegerId p, req_user = Some user \<rparr> now =
           (d', (200, LikeResult (row\<lparr> post_likes := Some new \<rparr>) (\<not> liked)))"
    unfolding Let_def liked_def[symmetric] new_def[symmetric]
    using before r stored flip route by simp
qed

text \<open>
  C1 at an input: user 2 likes seeded post 1 (24 likes, nobody in the like relation). In
  MemStorage and in the database the pair is inserted and the likes become 25, and the route
  answers 200 with the new like status \<open>True\<close>.
\<close>

theorem C1_toggle_transition_witness:
  "map_option post_likes (map_of (posts demoMem) 1) = Some (Some 24) \<and>
   \<not> hasUserLikedPost demoMem 1 2 \<and>
   hasUserLikedPost (fst (likePost demoMem 1 2)) 1 2 \<and>
   map_option post_likes (snd (likePost demoMem 1 2)) = Some (Some 25) \<and>
   map_option post_likes (firstRow (select_posts_by_id demoDb 1)) = Some (Some 24) \<and>
   select_users_by_id demoDb (user_id userB) \<noteq> [] \<and>
   int4 1 \<and> int4 (user_id userB) \<and>
   db_hasUserLikedPost demoDb 1 2 = Inr False \<and>
   db_hasUserLikedPost (fst (db_likePost demoDb 1 2 1700000009000)) 1 2 = Inr True \<and>
   map_option post_likes
     (firstRow (select_posts_by_id (fst (db_likePost demoDb 1 2 1700000009000)) 1)) = Some (Some 25) \<and>
   (\<exists>post'. snd (likeRoute demoDb \<lparr> req_id = IntegerId 1, req_user = Some userB \<rparr> 1700000009000) =
      (200, LikeResult post' True) \<and> post_likes post' = Some 25)"
proof -
  obtain post where post: "map_of (posts demoMem) 1 = Some post" "post_likes post = Some 24"
    by (simp add: mem_eval)
  obtain row where row: "firstRow (select_posts_by_id demoDb 1) = Some row" "post_likes row = Some 24"
    by (simp add: db_eval)
  have usr: "select_users_by_id demoDb (user_id userB) \<noteq> []"
    by (simp add: db_eval)
  have nl: "\<not> hasUserLikedPost demoMem 1 2"
    by (simp add: mem_eval)
  have dnl: "select_postLikes demoDb 1 2 = []"
    by (simp add: db_eval)
  have uid: "user_id userB = 2"
    by (simp add: userB_def)
  have rng: "int4 1" "int4 (user_id userB)"
    by (simp_all add: int4_def userB_def)
  note t = C1_toggle_transition[of demoMem 1 post 2 demoDb row userB 1700000009000]
  have mem: "hasUserLikedPost (fst (likePost demoMem 1 2)) 1 2 \<and>
      snd (likePost demoMem 1 2) = Some (post\<lparr> post_likes := Some 25 \<rparr>)"
    using t post nl by (simp add: Let_def orZero_def)
  have db: "db_hasUserLikedPost demoDb 1 2 = Inr False \<and>
      db_hasUserLikedPost (fst (db_likePost demoDb 1 2 1700000009000)) 1 2 = Inr True \<and>
      firstRow (select_posts_by_id (fst (db_likePost demoDb 1 2 1700000009000)) 1) =
        Some (row\<lparr> post_likes := Some 25 \<rparr>) \<and>
      snd (likeRoute demoDb \<lparr> req_id = IntegerId 1, req_user = Some userB \<rparr> 1700000009000) =
        (200, LikeResult (row\<lparr> post_likes := Some 25 \<rparr>) True)"
    using t row usr dnl uid rng by (simp add: Let_def orZero_def)
  show ?thesis
    using mem db post row usr nl rng by simp
qed

text \<open>
  C2. For every post created through createPost in a reachable MemStorage (it starts with
  likes 0 and no likers) and every finite run of likePost calls on it, the likes of the post
  equal the number of users who currently like it and are not negative; when the calling
  users are distinct, the likers are exactly those users and the likes are their number.
\<close>

theorem C2_likes_equal_likers:
  assumes "reachable s"
    and "createPost s postData now = (s1, post)"
    and "s' = likePostSeq s1 (post_id post) userIds"
  shows "post_likes post = Some 0 \<and> likers s1 (post_id post) = {} \<and>
     (\<exists>post'. map_of (posts s') (post_id post) = Some post' \<and>
        post_likes post' = Some (int (card (likers s' (post_id post)))) \<and>
        0 \<le> orZero (post_likes post') \<and>
        (distinct userIds \<longrightarrow>
           likers s' (post_id post) = set userIds \<and> post_likes post' = Some (int (length userIds))))"
proof -
  have s1: "s1 = fst (createPost s postData now)" and p: "post = snd (createPost s postData now)"
    using assms(2) by simp_all
  have e1: "likesExact s1 (post_id post)" and l1: "likers s1 (post_id post) = {}"
    using createPost_likesExact[OF assms(1), of postData now] by (simp_all add: s1 p)
  have "likesExact s' (post_id post)"
    unfolding assms(3) using e1 by (rule likesExact_likePostSeq)
  then obtain post' where post': "map_of (posts s') (post_id post) = Some post'"
    "post_likes post' = Some (int (card (likers s' (post_id post))))"
    unfolding likesExact_def by blast
  have ex1: "map_of (posts s1) (post_id post) \<noteq> None"
    using e1 unfolding likesExact_def by auto
  have d: "likers s' (post_id post) = set userIds" if "distinct userIds"
    unfolding assms(3) using likers_likePostSeq_distinct[OF ex1 that] l1 by simp
  have "post_likes post = Some 0" by (simp add: p createPost_frame)
  then show ?thesis
    using l1 post' d by (auto simp: orZero_def distinct_card)
qed

text \<open>
  C2 at an input: the Roadmap post is created in the demo MemStorage and gets id 3; users 1
  and 2 like it; its likes are 2 and its likers are users 1 and 2.
\<close>

theorem C2_likes_equal_likers_witness:
  "reachable demoMem \<and>
   post_id (snd (createPost demoMem roadmapPost 1700000005000)) = 3 \<and>
   distinct [1, 2 :: int] \<and>
   likers (likePostSeq (fst (createPost demoMem roadmapPost 1700000005000)) 3 [1, 2]) 3 = {1, 2} \<and>
   map_option post_likes
     (map_of (posts (likePostSeq (fst (createPost demoMem roadmapPost 1700000005000)) 3 [1, 2])) 3) =
     Some (Some 2)"
proof -
  have pid: "post_id (snd (createPost demoMem roadmapPost 1700000005000)) = 3"
    by (simp add: mem_eval)
  have c: "createPost demoMem roadmapPost 1700000005000 =
      (fst (createPost demoMem roadmapPost 1700000005000),
       snd (createPost demoMem roadmapPost 1700000005000))"
    by simp
  from C2_likes_equal_likers[OF reachable_demoMem c refl, of "[1, 2]"] pid reachable_demoMem
  show ?thesis by auto
qed

text \<open>
  C3. For every post stored in a reachable MemStorage and every user, two consecutive
  likePost calls by that user flip the user's like status and change the likes at the first
  call, and restore both at the second: the like status and the stored post (so its likes)
  are what they were before the first call.
\<close>

theorem C3_toggle_twice:
  assumes "reachable s" and "map_of (posts s) p = Some post"
    and "s1 = fst (likePost s p u)" and "s2 = fst (likePost s1 p u)"
  shows "hasUserLikedPost s1 p u = (\<not> hasUserLikedPost s p u) \<and>
     (\<exists>post1. map_of (posts s1) p = Some post1 \<and> post_likes post1 \<noteq> post_likes post) \<and>
     hasUserLikedPost s2 p u = hasUserLikedPost s p u \<and>
     map_of (posts s2) p = Some post \<and>
     posts s2 = posts s"
proof -
  obtain n where n: "post_likes post = Some n" "int (card (likers s p)) \<le> n"
    using reachable_memInv[OF assms(1)] assms(2) unfolding memInv_def by blast
  define v where "v = (if hasUserLikedPost s p u then max 0 (n - 1) else n + 1)"
  define post1 where "post1 = post\<lparr> post_likes := Some v \<rparr>"
  have posts1: "posts s1 = AList.update p post1 (posts s)"
    unfolding assms(3) post1_def v_def using n by (simp add: posts_likePost[OF assms(2)] orZero_def)
  have p1: "map_of (posts s1) p = Some post1"
    by (simp add: posts1 update_conv')
  have h1: "hasUserLikedPost s1 p u = (\<not> hasUserLikedPost s p u)"
    unfolding assms(3) by (simp add: hasUserLikedPost_likePost[OF assms(2)])
  have h2: "hasUserLikedPost s2 p u = hasUserLikedPost s p u"
    unfolding assms(4) using h1 by (simp add: hasUserLikedPost_likePost[OF p1])
  have n1: "1 \<le> n" if "hasUserLikedPost s p u"
  proof -
    have "u \<in> likers s p" using that by (simp add: likers_def)
    then have "card (likers s p) \<noteq> 0" using finite_likers[of s p] by auto
    then show ?thesis using n(2) by simp
  qed
  have restored: "(if hasUserLikedPost s1 p u then max 0 (v - 1) else v + 1) = n"
    using h1 n1 n(2) unfolding v_def by auto
  have "posts s2 = AList.update p (post1\<lparr> post_likes := Some n \<rparr>) (posts s1)"
    unfolding assms(4) posts_likePost[OF p1] using restored
    by (auto simp: post1_def orZero_def split: if_splits)
  also have "post1\<lparr> post_likes := Some n \<rparr> = post"
    unfolding post1_def using n(1) by simp
  finally have "posts s2 = AList.update p post (posts s)"
    by (simp add: posts1 update_last)
  then have posts2: "posts s2 = posts s"
    using assms(2) by (simp add: update_triv)
  have "v \<noteq> n" using n1 unfolding v_def by auto
  then have "post_likes post1 \<noteq> post_likes post" by (simp add: post1_def n(1))
  then show ?thesis using h1 h2 p1 posts2 assms(2) by simp
qed

text \<open>
  C3 at an input: user 2 toggles seeded post 1 of the demo MemStorage twice; the likes go
  from 24 to 25 and back to 24, and the user ends up not liking the post, as before.
\<close>

theorem C3_toggle_twice_witness:
  "reachable demoMem \<and>
   map_option post_likes (map_of (posts demoMem) 1) = Some (Some 24) \<and>
   \<not> hasUserLikedPost demoMem 1 2 \<and>
   hasUserLikedPost (fst (likePost demoMem 1 2)) 1 2 \<and>
   \<not> hasUserLikedPost (fst (likePost (fst (likePost demoMem 1 2)) 1 2)) 1 2 \<and>
   posts (fst (likePost (fst (likePost demoMem 1 2)) 1 2)) = posts demoMem"
proof -
  obtain post where post: "map_of (posts demoMem) 1 = Some post" "post_likes post = Some 24"
    by (simp add: mem_eval)
  have nl: "\<not> hasUserLikedPost demoMem 1 2"
    by (simp add: mem_eval)
  from C3_toggle_twice[OF reachable_demoMem post(1) refl refl, of 2] post nl reachable_demoMem
  show ?thesis by simp
qed







text \<open>
  C6, storage by storage. DatabaseStorage.createUser is rejected by the database when the
  username is already in the users table, and no user row is added; with a username that is not yet
  there (and the next serial id unused) it returns a new user carrying that id and adds the
  row. MemStorage.createUser makes no uniqueness check and cannot fail: in every reachable
  state it returns a new user with the next id, not in use before, and adds it to the users,
  whether or not the username is already taken.
\<close>

theorem C6_createUser:
  "(reachable s \<longrightarrow>
      (let s' = fst (createUser s userData); user = snd (createUser s userData) in
         user_id user = userCurrentId s \<and> user_username user = iu_username userData \<and>
         map_of (users s) (user_id user) = None \<and>
         users s' = users s @ [(user_id user, user)]))
   \<and>
   (filter (\<lambda>u. user_username u = iu_username userData) (users_table d) \<noteq> [] \<longrightarrow>
      (\<exists>e d'. db_createUser d userData = (d', Inl e) \<and> users_table d' = users_table d))
   \<and>
   (filter (\<lambda>u. user_username u = iu_username userData) (users_table d) = [] \<and>
    select_users_by_id d (users_id_seq d) = [] \<longrightarrow>
      (\<exists>d' user. db_createUser d userData = (d', Inr user) \<and>
         user_id user = users_id_seq d \<and> user_username user = iu_username userData \<and>
         users_table d' = users_table d @ [user]))"
proof (intro conjI impI)
  assume r: "reachable s"
  show "let s' = fst (createUser s userData); user = snd (createUser s userData) in
         user_id user = userCurrentId s \<and> user_username user = iu_username userData \<and>
         map_of (users s) (user_id user) = None \<and>
         users s' = users s @ [(user_id user, user)]"
    unfolding Let_def
    using createUser_fresh[OF r] update_fresh[OF createUser_fresh[OF r], of "snd (createUser s userData)"]
    by (simp add: createUser_users)
next
  assume "filter (\<lambda>u. user_username u = iu_username userData) (users_table d) \<noteq> []"
  from db_createUser_taken[OF this]
  show "\<exists>e d'. db_createUser d userData = (d', Inl e) \<and> users_table d' = users_table d"
    by auto
next
  assume "filter (\<lambda>u. user_username u = iu_username userData) (users_table d) = [] \<and>
    select_users_by_id d (users_id_seq d) = []"
  then show "\<exists>d' user. db_createUser d userData = (d', Inr user) \<and>
         user_id user = users_id_seq d \<and> user_username user = iu_username userData \<and>
         users_table d' = users_table d @ [user]"
    using db_createUser_fresh[of d userData] by simp
qed

text \<open>
  C6 at an input: a second sign-up as alex.johnson gets id 4 from the demo MemStorage and is
  rejected by the seeded database; dana.lee gets id 4 from the database.
\<close>

theorem C6_createUser_witness:
  "reachable demoMem \<and>
   user_id (snd (createUser demoMem secondAlex)) = 4 \<and>
   map_of (users demoMem) 4 = None \<and>
   length (users (fst (createUser demoMem secondAlex))) = 4 \<and>
   filter (\<lambda>u. user_username u = iu_username secondAlex) (users_table demoDb) \<noteq> [] \<and>
   (\<exists>e d'. db_createUser demoDb secondAlex = (d', Inl e) \<and> users_table d' = users_table demoDb) \<and>
   filter (\<lambda>u. user_username u = iu_username freshUser) (users_table demoDb) = [] \<and>
   select_users_by_id demoDb (users_id_seq demoDb) = [] \<and>
   (\<exists>d' user. db_createUser demoDb freshUser = (d', Inr user) \<and> user_id user = 4 \<and>
      length (users_table d') = 4)"
proof -
  have cur: "userCurrentId demoMem = 4" "length (users demoMem) = 3"
    by (simp_all add: mem_eval)
  have taken: "filter (\<lambda>u. user_username u = iu_username secondAlex) (users_table demoDb) \<noteq> []"
    by (simp add: db_eval)
  have free: "filter (\<lambda>u. user_username u = iu_username freshUser) (users_table demoDb) = []"
    "select_users_by_id demoDb (users_id_seq demoDb) = []"
    by (simp_all add: db_eval)
  have seq: "users_id_seq demoDb = 4" "length (users_table demoDb) = 3"
    by (simp_all add: db_eval)
  note t1 = C6_createUser[of demoMem secondAlex demoDb]
  note t2 = C6_createUser[of demoMem freshUser demoDb]
  have mem: "user_id (snd (createUser demoMem secondAlex)) = 4 \<and> map_of (users demoMem) 4 = None \<and>
      length (users (fst (createUser demoMem secondAlex))) = 4"
    using t1 reachable_demoMem cur by (auto simp: Let_def)
  have rej: "\<exists>e d'. db_createUser demoDb secondAlex = (d', Inl e) \<and> users_table d' = users_table demoDb"
    using t1 taken by blast
  have acc: "\<exists>d' user. db_createUser demoDb freshUser = (d', Inr user) \<and> user_id user = 4 \<and>
      length (users_table d') = 4"
    using t2 free seq by auto
  show ?thesis
    using reachable_demoMem mem taken rej free acc by simp
qed

text \<open>
  C6 for MemStorage fails: alex.johnson is already a user of the demo MemStorage,
  and createUser with that username returns a user with id 4 and leaves two users named
  alex.johnson in the store.
\<close>

theorem C6_createUser_counterexample:
  "map_option user_id (getUserByUsername demoMem (iu_username secondAlex)) = Some 1 \<and>
   user_id (snd (createUser demoMem secondAlex)) = 4 \<and>
   user_username (snd (createUser demoMem secondAlex)) = ''alex.johnson'' \<and>
   map user_id (filter (\<lambda>u. user_username u = ''alex.johnson'')
                  (map snd (users (fst (createUser demoMem secondAlex))))) = [1, 4]"
  by (simp add: mem_eval)

text \<open>
  C7. For every pair of timestamps, getTimeAgo returns the string of the specified buckets
  for the elapsed duration: whole seconds below 60 seconds, whole minutes below 60 minutes,
  whole hours below 24 hours, whole days below 30 days, and otherwise days divided by 30 as
  months, with the singular unit exactly when the count is 1. In particular 59 seconds give
  "59 seconds ago", exactly 60 seconds give "1 minute ago" and 3661 seconds give "1 hour ago".
\<close>

theorem C7_getTimeAgo_buckets:
  "getTimeAgo now date = timeAgo_spec (now - date)
   \<and> getTimeAgo (date + 59 * 1000) date = ''59 seconds ago''
   \<and> getTimeAgo (date + 60 * 1000) date = ''1 minute ago''
   \<and> getTimeAgo (date + 3661 * 1000) date = ''1 hour ago''"
proof -
  have "getTimeAgo (date + 59 * 1000) date = ''59 seconds ago''"
    by (simp add: getTimeAgo_def showInt_def showNat.simps digitChar_def)
  moreover have "getTimeAgo (date + 60 * 1000) date = ''1 minute ago''"
    by (simp add: getTimeAgo_def showInt_def showNat.simps digitChar_def)
  moreover have "getTimeAgo (date + 3661 * 1000) date = ''1 hour ago''"
    by (simp add: getTimeAgo_def showInt_def showNat.simps digitChar_def)
  ultimately show ?thesis using getTimeAgo_refines by simp
qed

text \<open>
  C8. The claim asks that likePost adjust the counter by a relative delta inside the same
  transaction as the like row. The code does so for createComment only. likePost reads the
  post, then writes the like row, then writes \<^verbatim>\<open>currentLikes + 1\<close> computed from the post it
  read at the start, each statement on its own. Run statement by statement with nothing in
  between, the steps give what likePost gives. With users 1 and 2 liking the fresh Roadmap
  post (post 3, likes 0) at the same time, statements alternating, both like rows are
  inserted and both calls return, but the likes end at 1, not 2: one update is lost. Run one
  after the other, the same two calls leave the likes at 2.
\<close>

theorem C8_likePost_lost_update:
  "likePostAlone d p u now = (fst (db_likePost d p u now), Returned (snd (db_likePost d p u now)))
   \<and>
   (case likePostInterleaved roadmapDb 3 1 2 1700000009000 AtSelectPost AtSelectPost
           [False, True, False, True, False, True, False, True] of
      (d', ta, tb) \<Rightarrow>
        (map post_likes (select_posts_by_id d' 3), map pl_userId (postLikes_table d'),
         case ta of Returned (Inr (Some post')) \<Rightarrow> post_likes post' | _ \<Rightarrow> None,
         case tb of Returned (Inr (Some post')) \<Rightarrow> post_likes post' | _ \<Rightarrow> None)) =
     ([Some 1], [1, 2], Some 1, Some 1)
   \<and>
   map post_likes (select_posts_by_id roadmapDb 3) = [Some 0]
   \<and>
   (let d1 = fst (db_likePost roadmapDb 3 1 1700000009000);
        d2 = fst (db_likePost d1 3 2 1700000009000)
    in (map post_likes (select_posts_by_id d2 3), map pl_userId (postLikes_table d2))) =
     ([Some 2], [1, 2])"
proof -
  have "(case likePostInterleaved roadmapDb 3 1 2 1700000009000 AtSelectPost AtSelectPost
           [False, True, False, True, False, True, False, True] of
      (d', ta, tb) \<Rightarrow>
        (map post_likes (select_posts_by_id d' 3), map pl_userId (postLikes_table d'),
         case ta of Returned (Inr (Some post')) \<Rightarrow> post_likes post' | _ \<Rightarrow> None,
         case tb of Returned (Inr (Some post')) \<Rightarrow> post_likes post' | _ \<Rightarrow> None)) =
     ([Some 1], [1, 2], Some 1, Some 1)"
    by (simp add: db_eval)
  moreover have "map post_likes (select_posts_by_id roadmapDb 3) = [Some 0]"
    by (simp add: db_eval)
  moreover have "(let d1 = fst (db_likePost roadmapDb 3 1 1700000009000);
        d2 = fst (db_likePost d1 3 2 1700000009000)
    in (map post_likes (select_posts_by_id d2 3), map pl_userId (postLikes_table d2))) =
     ([Some 2], [1, 2])"
    by (simp add: db_eval)
  ultimately show ?thesis using likePostAlone_eq by simp
qed

text \<open>
  C9. likePost on post \<open>p\<close> by user \<open>u\<close> changes at most the membership of \<open>(p, u)\<close> in the
  like relation and the likes of \<open>p\<close>. In MemStorage the users, the comments, the activities
  and the four id counters are unchanged, every other pair keeps its like status, the posts
  keep their keys and order, every other post is unchanged, and \<open>p\<close> differs from what it
  was in its likes only; when \<open>p\<close> is not stored nothing changes at all. In DatabaseStorage
  the users and comments tables and the sequences are unchanged, the like rows of every
  other pair are unchanged, and the posts table is either unchanged or differs only in the
  likes of the rows whose id is \<open>p\<close>.
\<close>

theorem C9_likePost_frame:
  "(let s' = fst (likePost s p u) in
      users s' = users s \<and> comments s' = comments s \<and> activities s' = activities s \<and>
      userCurrentId s' = userCurrentId s \<and> postCurrentId s' = postCurrentId s \<and>
      activityCurrentId s' = activityCurrentId s \<and> commentCurrentId s' = commentCurrentId s \<and>
      (\<forall>q v. (q, v) \<noteq> (p, u) \<longrightarrow> hasUserLikedPost s' q v = hasUserLikedPost s q v) \<and>
      map fst (posts s') = map fst (posts s) \<and>
      (\<forall>q. q \<noteq> p \<longrightarrow> map_of (posts s') q = map_of (posts s) q) \<and>
      (case map_of (posts s) p of
         None \<Rightarrow> s' = s
       | Some post \<Rightarrow> \<exists>v. map_of (posts s') p = Some (post\<lparr> post_likes := Some v \<rparr>)))
   \<and>
   (let d' = fst (db_likePost d p u now) in
      users_table d' = users_table d \<and> comments_table d' = comments_table d \<and>
      users_id_seq d' = users_id_seq d \<and> posts_id_seq d' = posts_id_seq d \<and>
      comments_id_seq d' = comments_id_seq d \<and>
      filter (\<lambda>l. \<not> (pl_postId l = p \<and> pl_userId l = u)) (postLikes_table d') =
        filter (\<lambda>l. \<not> (pl_postId l = p \<and> pl_userId l = u)) (postLikes_table d) \<and>
      (\<forall>q v. (q, v) \<noteq> (p, u) \<longrightarrow> db_hasUserLikedPost d' q v = db_hasUserLikedPost d q v) \<and>
      (posts_table d' = posts_table d \<or>
       (\<exists>v. posts_table d' =
          map (\<lambda>r. if post_id r = p then r\<lparr> post_likes := Some v \<rparr> else r) (posts_table d))))"
proof -
  have mem: "let s' = fst (likePost s p u) in
      users s' = users s \<and> comments s' = comments s \<and> activities s' = activities s \<and>
      userCurrentId s' = userCurrentId s \<and> postCurrentId s' = postCurrentId s \<and>
      activityCurrentId s' = activityCurrentId s \<and> commentCurrentId s' = commentCurrentId s \<and>
      (\<forall>q v. (q, v) \<noteq> (p, u) \<longrightarrow> hasUserLikedPost s' q v = hasUserLikedPost s q v) \<and>
      map fst (posts s') = map fst (posts s) \<and>
      (\<forall>q. q \<noteq> p \<longrightarrow> map_of (posts s') q = map_of (posts s) q) \<and>
      (case map_of (posts s) p of
         None \<Rightarrow> s' = s
       | Some post \<Rightarrow> \<exists>v. map_of (posts s') p = Some (post\<lparr> post_likes := Some v \<rparr>))"
  proof (cases "map_of (posts s) p")
    case None
    then show ?thesis by (simp add: likePost_missing)
  next
    case (Some post)
    show ?thesis
      unfolding Let_def
      using Some
      by (auto simp: likePost_frame hasUserLikedPost_likePost[OF Some] posts_likePost[OF Some]
          update_conv' map_fst_update_present)
  qed
  have db: "let d' = fst (db_likePost d p u now) in
      users_table d' = users_table d \<and> comments_table d' = comments_table d \<and>
      users_id_seq d' = users_id_seq d \<and> posts_id_seq d' = posts_id_seq d \<and>
      comments_id_seq d' = comments_id_seq d \<and>
      filter (\<lambda>l. \<not> (pl_postId l = p \<and> pl_userId l = u)) (postLikes_table d') =
        filter (\<lambda>l. \<not> (pl_postId l = p \<and> pl_userId l = u)) (postLikes_table d) \<and>
      (\<forall>q v. (q, v) \<noteq> (p, u) \<longrightarrow> db_hasUserLikedPost d' q v = db_hasUserLikedPost d q v) \<and>
      (posts_table d' = posts_table d \<or>
       (\<exists>v. posts_table d' =
          map (\<lambda>r. if post_id r = p then r\<lparr> post_likes := Some v \<rparr> else r) (posts_table d)))"
    unfolding Let_def
    using db_likePost_other_likes[of p u d now] db_likePost_other_pairs[of _ _ p u d now]
      db_likePost_posts[of d p u now]
    by (simp add: db_likePost_frame)
  from mem db show ?thesis by (rule conjI)
qed

text \<open>
  C9 at an input: user 2 likes seeded post 1. The users and post 2 are what they were, user
  3's like status on post 1 is what it was, and post 1 differs in its likes only; the same in
  the database.
\<close>

theorem C9_likePost_frame_witness:
  "(1 :: int, 3 :: int) \<noteq> (1, 2) \<and>
   users (fst (likePost demoMem 1 2)) = users demoMem \<and>
   comments (fst (likePost demoMem 1 2)) = comments demoMem \<and>
   hasUserLikedPost (fst (likePost demoMem 1 2)) 1 3 = hasUserLikedPost demoMem 1 3 \<and>
   map_of (posts (fst (likePost demoMem 1 2))) 2 = map_of (posts demoMem) 2 \<and>
   map_option (\<lambda>post. post\<lparr> post_likes := None \<rparr>) (map_of (posts (fst (likePost demoMem 1 2))) 1) =
     map_option (\<lambda>post. post\<lparr> post_likes := None \<rparr>) (map_of (posts demoMem) 1) \<and>
   map_of (posts (fst (likePost demoMem 1 2))) 1 \<noteq> map_of (posts demoMem) 1 \<and>
   users_table (fst (db_likePost demoDb 1 2 1700000009000)) = users_table demoDb \<and>
   comments_table (fst (db_likePost demoDb 1 2 1700000009000)) = comments_table demoDb \<and>
   db_hasUserLikedPost (fst (db_likePost demoDb 1 2 1700000009000)) 1 3 =
     db_hasUserLikedPost demoDb 1 3 \<and>
   posts_table (fst (db_likePost demoDb 1 2 1700000009000)) \<noteq> posts_table demoDb \<and>
   map (\<lambda>r. r\<lparr> post_likes := None \<rparr>) (posts_table (fst (db_likePost demoDb 1 2 1700000009000))) =
     map (\<lambda>r. r\<lparr> post_likes := None \<rparr>) (posts_table demoDb)"
proof -
  note t = C9_likePost_frame[of demoMem 1 2 demoDb 1700000009000]
  obtain post where post: "map_of (posts demoMem) 1 = Some post" "post_likes post = Some 24"
    by (simp add: mem_eval)
  have frame: "users (fst (likePost demoMem 1 2)) = users demoMem \<and>
      comments (fst (likePost demoMem 1 2)) = comments demoMem \<and>
      hasUserLikedPost (fst (likePost demoMem 1 2)) 1 3 = hasUserLikedPost demoMem 1 3 \<and>
      map_of (posts (fst (likePost demoMem 1 2))) 2 = map_of (posts demoMem) 2"
    using t by (simp add: Let_def)
  have likes_only: "map_option (\<lambda>post. post\<lparr> post_likes := None \<rparr>)
        (map_of (posts (fst (likePost demoMem 1 2))) 1) =
      map_option (\<lambda>post. post\<lparr> post_likes := None \<rparr>) (map_of (posts demoMem) 1)"
    using t post by (auto simp: Let_def)
  have changed: "map_of (posts (fst (likePost demoMem 1 2))) 1 \<noteq> map_of (posts demoMem) 1"
    by (auto simp: mem_eval)
  have dframe: "users_table (fst (db_likePost demoDb 1 2 1700000009000)) = users_table demoDb \<and>
      comments_table (fst (db_likePost demoDb 1 2 1700000009000)) = comments_table demoDb \<and>
      db_hasUserLikedPost (fst (db_likePost demoDb 1 2 1700000009000)) 1 3 =
        db_hasUserLikedPost demoDb 1 3"
    using t by (simp add: Let_def)
  have dchanged: "posts_table (fst (db_likePost demoDb 1 2 1700000009000)) \<noteq> posts_table demoDb"
    by (simp add: db_eval)
  have dlikes_only: "map (\<lambda>r. r\<lparr> post_likes := None \<rparr>)
        (posts_table (fst (db_likePost demoDb 1 2 1700000009000))) =
      map (\<lambda>r. r\<lparr> post_likes := None \<rparr>) (posts_table demoDb)"
  proof -
    have "posts_table (fst (db_likePost demoDb 1 2 1700000009000)) = posts_table demoDb \<or>
       (\<exists>v. posts_table (fst (db_likePost demoDb 1 2 1700000009000)) =
          map (\<lambda>r. if post_id r = 1 then r\<lparr> post_likes := Some v \<rparr> else r) (posts_table demoDb))"
      using t by (simp add: Let_def)
    then show ?thesis
    proof
      assume "posts_table (fst (db_likePost demoDb 1 2 1700000009000)) = posts_table demoDb"
      then show ?thesis by simp
    next
      assume "\<exists>v. posts_table (fst (db_likePost demoDb 1 2 1700000009000)) =
          map (\<lambda>r. if post_id r = 1 then r\<lparr> post_likes := Some v \<rparr> else r) (posts_table demoDb)"
      then obtain v where "posts_table (fst (db_likePost demoDb 1 2 1700000009000)) =
          map (\<lambda>r. if post_id r = 1 then r\<lparr> post_likes := Some v \<rparr> else r) (posts_table demoDb)"
        by blast
      then show ?thesis by simp
    qed
  qed
  show ?thesis
    using frame likes_only changed dframe dchanged dlikes_only by simp
qed

text \<open>
  C10. DatabaseStorage.getRecentActivities returns the empty list whatever the database
  holds, and the activities route, which runs on DatabaseStorage, answers 200 with an empty
  array.
\<close>

theorem C10_no_activities:
  "db_getRecentActivities d = [] \<and> activitiesRoute d = (200, ActivityList [])"
  by (simp add: db_getRecentActivities_def activitiesRoute_def)

end
